theory Spec2Isabelle
  imports Main
begin

text \<open>
  A model of the eligibility computation of the Superfluid eligibility API: the recipient
  ledger (\<open>utils/UBARecipients.ts\<close>), the allocation source client
  (\<open>services/stack/stackApiService.ts\<close>), the chain state client
  (\<open>services/blockchain/blockchainService.ts\<close>) and the eligibility service
  (\<open>services/eligibilityService.ts\<close>). The external services are parameters: records of
  functions that give the answer, or the failure, of each request. Asynchronous functions
  are modelled by the value their promise settles to, \<open>Inl\<close> being a rejection.
\<close>

section \<open>Strings and numbers of the source language\<close>

text \<open>
  Strings are byte lists. \<open>String.prototype.toLowerCase\<close> is modelled on the ASCII letters,
  which covers hexadecimal account addresses and the event labels of the service.
\<close>

definition toLowerCase_char :: "char \<Rightarrow> char" where
  "toLowerCase_char c =
     (case map_of (zip ''ABCDEFGHIJKLMNOPQRSTUVWXYZ'' ''abcdefghijklmnopqrstuvwxyz'') c of
        Some d \<Rightarrow> d
      | None \<Rightarrow> c)"

definition toLowerCase :: "string \<Rightarrow> string" where
  "toLowerCase s = map toLowerCase_char s"

text \<open>\<open>s.replace(/_/g, '-')\<close>\<close>

definition replace_underscores :: "string \<Rightarrow> string" where
  "replace_underscores s = map (\<lambda>c. if c = CHR ''_'' then CHR ''-'' else c) s"

text \<open>
  A \<open>bigint\<close> is an \<open>int\<close>. A JavaScript \<open>number\<close> holding an integer value is
  represented by that value; \<open>Number(b)\<close> of a bigint \<open>b\<close> is the double nearest to \<open>b\<close>
  (53 significant bits, ties to even). Magnitudes stay below \<open>2 ^ 1024\<close> (the chain
  quantities are \<open>uint128\<close>), so the overflow to \<open>Infinity\<close> is not part of the model.
  The points of an allocation are integers (\<open>BigInt(points)\<close> throws on a fraction).
\<close>

function bitlen :: "int \<Rightarrow> nat" where
  "bitlen n = (if n \<le> 0 then 0 else Suc (bitlen (n div 2)))"
  by pat_completeness auto
termination
  by (relation "measure nat") auto

declare bitlen.simps [simp del]

definition roundToDouble :: "int \<Rightarrow> int" where
  "roundToDouble a =
     (if a < 2 ^ 53 then a
      else
        (let e = bitlen a - 53;
             q = a div 2 ^ e;
             r = a mod 2 ^ e;
             h = 2 ^ (e - 1);
             q' = (if r > h \<or> (r = h \<and> odd q) then q + 1 else q)
         in q' * 2 ^ e))"

definition Number :: "int \<Rightarrow> int" where
  "Number n = sgn n * roundToDouble \<bar>n\<bar>"

text \<open>\<open>a + b\<close> on two numbers: the exact sum, rounded to the nearest double.\<close>

definition number_add :: "int \<Rightarrow> int \<Rightarrow> int" where
  "number_add a b = Number (a + b)"

text \<open>\<open>BigInt.prototype.toString()\<close>: the decimal rendering.\<close>

function digitsOf :: "int \<Rightarrow> string" where
  "digitsOf n =
     (if n < 10 then [''0123456789'' ! nat n]
      else digitsOf (n div 10) @ [''0123456789'' ! nat (n mod 10)])"
  by pat_completeness auto
termination
  by (relation "measure nat") auto

declare digitsOf.simps [simp del]

definition bigint_toString :: "int \<Rightarrow> string" where
  "bigint_toString i = (if i < 0 then CHR ''-'' # digitsOf (- i) else digitsOf i)"

datatype error = Error string | RangeError string | TypeError string

fun message :: "error \<Rightarrow> string" where
  "message (Error m) = m"
| "message (RangeError m) = m"
| "message (TypeError m) = m"

text \<open>
  The \<open>/\<close> of two bigints truncates towards zero and throws a \<open>RangeError\<close> on a zero
  divisor.
\<close>

definition bigint_quot :: "int \<Rightarrow> int \<Rightarrow> int" where
  "bigint_quot a b = sgn a * sgn b * (\<bar>a\<bar> div \<bar>b\<bar>)"

definition bigint_div :: "int \<Rightarrow> int \<Rightarrow> error + int" where
  "bigint_div a b = (if b = 0 then Inl (RangeError ''Division by zero'') else Inr (bigint_quot a b))"

text \<open>\<open>Array.prototype.findIndex\<close> (\<open>None\<close> stands for \<open>-1\<close>).\<close>

fun findIndex :: "('a \<Rightarrow> bool) \<Rightarrow> 'a list \<Rightarrow> nat option" where
  "findIndex P [] = None"
| "findIndex P (x # xs) =
     (if P x then Some 0 else (case findIndex P xs of None \<Rightarrow> None | Some i \<Rightarrow> Some (Suc i)))"

section \<open>The recipient ledger (utils/UBARecipients.ts)\<close>

text \<open>
  Timestamps are milliseconds since the epoch; the source stores them as ISO-8601 strings
  (\<open>new Date().toISOString()\<close>) and compares them as \<open>Date\<close> values.
\<close>

record UniversalPointRecipient =
  address :: string
  topUpDate :: int
  lockerAddress :: "string option"
  lockerCheckedDate :: "string option"
  claimed :: "bool option"
  lastChecked :: "int option"

text \<open>\<open>Partial<UniversalPointRecipient>\<close>: every field may be absent.\<close>

record PartialRecipient =
  p_address :: "string option"
  p_topUpDate :: "int option"
  p_lockerAddress :: "string option"
  p_lockerCheckedDate :: "string option"
  p_claimed :: "bool option"
  p_lastChecked :: "int option"

text \<open>
  The data file. \<open>file_readable\<close> and \<open>file_writable\<close> say whether \<open>readFileSync\<close> and
  \<open>writeFileSync\<close> succeed; a file that does not exist yet holds the empty list.
\<close>

record io =
  file_readable :: bool
  file_writable :: bool

definition getStoredRecipients :: "io \<Rightarrow> UniversalPointRecipient list \<Rightarrow> UniversalPointRecipient list" where
  "getStoredRecipients fs file = (if file_readable fs then file else [])"

definition saveRecipients ::
  "io \<Rightarrow> UniversalPointRecipient list \<Rightarrow> UniversalPointRecipient list \<Rightarrow> bool \<times> UniversalPointRecipient list" where
  "saveRecipients fs file recipients = (if file_writable fs then (True, recipients) else (False, file))"

text \<open>The object spread \<open>{...r, ...p}\<close>: a field present in \<open>p\<close> overrides the one of \<open>r\<close>.\<close>

definition spread :: "UniversalPointRecipient \<Rightarrow> PartialRecipient \<Rightarrow> UniversalPointRecipient" where
  "spread r p =
     \<lparr> address = (case p_address p of Some a \<Rightarrow> a | None \<Rightarrow> address r),
       topUpDate = (case p_topUpDate p of Some t \<Rightarrow> t | None \<Rightarrow> topUpDate r),
       lockerAddress = (case p_lockerAddress p of Some l \<Rightarrow> Some l | None \<Rightarrow> lockerAddress r),
       lockerCheckedDate =
         (case p_lockerCheckedDate p of Some d \<Rightarrow> Some d | None \<Rightarrow> lockerCheckedDate r),
       claimed = (case p_claimed p of Some c \<Rightarrow> Some c | None \<Rightarrow> claimed r),
       lastChecked = (case p_lastChecked p of Some d \<Rightarrow> Some d | None \<Rightarrow> lastChecked r) \<rparr>"

definition same_address :: "string \<Rightarrow> UniversalPointRecipient \<Rightarrow> bool" where
  "same_address a r = (toLowerCase (address r) = toLowerCase a)"

text \<open>
  \<open>addRecipient(recipient)\<close> at time \<open>now\<close>; the result is the returned flag and the file
  afterwards.
\<close>

definition addRecipient ::
  "io \<Rightarrow> int \<Rightarrow> UniversalPointRecipient list \<Rightarrow> PartialRecipient \<Rightarrow> bool \<times> UniversalPointRecipient list" where
  "addRecipient fs now file recipient =
     (case p_address recipient of
        None \<Rightarrow> (False, file)
      | Some a \<Rightarrow>
          if a = [] then (False, file)
          else
            (let recipients = getStoredRecipients fs file in
             case findIndex (same_address a) recipients of
               Some existingIndex \<Rightarrow>
                 saveRecipients fs file
                   (recipients[existingIndex :=
                      (spread (recipients ! existingIndex) recipient)\<lparr>topUpDate := now\<rparr>])
             | None \<Rightarrow>
                 saveRecipients fs file
                   (recipients @
                      [spread \<lparr> address = a, topUpDate = now, lockerAddress = None,
                                lockerCheckedDate = None, claimed = None, lastChecked = None \<rparr>
                         recipient])))"


definition getRecipient :: "io \<Rightarrow> UniversalPointRecipient list \<Rightarrow> string \<Rightarrow> UniversalPointRecipient option" where
  "getRecipient fs file a = find (same_address a) (getStoredRecipients fs file)"

text \<open>\<open>latestRecipients(timePeriod)\<close> at time \<open>now\<close>; \<open>timePeriod\<close> is in seconds.\<close>

definition latestRecipients ::
  "io \<Rightarrow> int \<Rightarrow> UniversalPointRecipient list \<Rightarrow> int \<Rightarrow> UniversalPointRecipient list" where
  "latestRecipients fs now file timePeriod =
     (let recipients = getStoredRecipients fs file;
          cutoff = now - timePeriod * 1000
      in filter (\<lambda>recipient. topUpDate recipient \<ge> cutoff) recipients)"


text \<open>The \<open>uniqueId\<close> of a grant event (stackApiService.assignPoints).\<close>

definition uniqueId :: "string \<Rightarrow> string \<Rightarrow> string" where
  "uniqueId eventName a = replace_underscores (toLowerCase eventName) @ ''-'' @ toLowerCase a"

definition no_fields :: PartialRecipient where
  "no_fields = \<lparr> p_address = None, p_topUpDate = None, p_lockerAddress = None,
                 p_lockerCheckedDate = None, p_claimed = None, p_lastChecked = None \<rparr>"


text \<open>\<open>String.prototype.includes\<close>\<close>

fun is_prefix :: "string \<Rightarrow> string \<Rightarrow> bool" where
  "is_prefix [] s = True"
| "is_prefix (c # cs) [] = False"
| "is_prefix (c # cs) (d # ds) = (c = d \<and> is_prefix cs ds)"

fun str_includes :: "string \<Rightarrow> string \<Rightarrow> bool" where
  "str_includes [] sub = (sub = [])"
| "str_includes (c # cs) sub = (is_prefix sub (c # cs) \<or> str_includes cs sub)"

section \<open>Configuration (config/index.ts) and data types (models/types.ts)\<close>

record PointSystem =
  ps_id :: int
  ps_name :: string
  gdaPoolAddress :: string
  flowrate :: int
  totalUnits :: int

text \<open>
  \<open>flowrate\<close> is a bigint, \<open>totalUnits\<close> a number. The thresholds are read from the process
  environment with the defaults of \<open>config_default\<close>.
\<close>

record config =
  pointSystems :: "PointSystem list"
  POINT_THRESHOLD :: int
  POINTS_TO_ASSIGN :: int
  COMMUNITY_ACTIVATION_ID :: int
  THRESHOLD_TIME_PERIOD :: int
  THRESHOLD_MAX_USERS :: int

definition config_default :: config where
  "config_default =
     \<lparr> pointSystems =
         [ \<lparr> ps_id = 7691, ps_name = ''Community Activations'',
             gdaPoolAddress = ''0xB7d7331529dC6fb68CB602d9B738CabD84d3ae6d'',
             flowrate = 1607510288065843368, totalUnits = 0 \<rparr>,
           \<lparr> ps_id = 7695, ps_name = ''AlfaFrens'',
             gdaPoolAddress = ''0x0ac6aCe504CF4583dE327808834Aaf8AA3294FE3'',
             flowrate = 1607510288065843621, totalUnits = 0 \<rparr>,
           \<lparr> ps_id = 7696, ps_name = ''SuperBoring 1st Wave'',
             gdaPoolAddress = ''0xbeF36F4D3fC9b96A5eD5002a3308F768B44Cef7e'',
             flowrate = 1286008230452674897, totalUnits = 0 \<rparr>,
           \<lparr> ps_id = 7703, ps_name = ''Flow Guilds & Octant SQF'',
             gdaPoolAddress = ''0xAAc36Fe22DC97C1942000A13a3967D8ef1aB11f4'',
             flowrate = 321502057613168724, totalUnits = 0 \<rparr>,
           \<lparr> ps_id = 7712, ps_name = ''Payments & Distributions'',
             gdaPoolAddress = ''0x5640003112EEaAd042D055D27072e8261d28FCe4'',
             flowrate = 902475598864699132, totalUnits = 0 \<rparr>,
           \<lparr> ps_id = 7702, ps_name = ''GoodDollar'',
             gdaPoolAddress = ''0x17A9ca096295472b7Ae1ECe9c7C5ad8248B9FF3d'',
             flowrate = 643004115226337429, totalUnits = 0 \<rparr>,
           \<lparr> ps_id = 7704, ps_name = ''Giveth'',
             gdaPoolAddress = ''0x17A9ca096295472b7Ae1ECe9c7C5ad8248B9FF3d'',
             flowrate = 643004115226337429, totalUnits = 0 \<rparr> ],
       POINT_THRESHOLD = 99,
       POINTS_TO_ASSIGN = 99,
       COMMUNITY_ACTIVATION_ID = 7370,
       THRESHOLD_TIME_PERIOD = 3600,
       THRESHOLD_MAX_USERS = 100 \<rparr>"

record StackAllocation =
  pointSystemUuid :: string
  accountAddress :: string
  points :: int
  maxCreatedAt :: int
  allocation :: int

text \<open>
  The fields \<open>points\<close>, \<open>gdaPoolAddress\<close> and \<open>address\<close> of the result records carry the
  suffix \<open>_e\<close>. \<open>points_e\<close> and \<open>claimedAmount\<close> are numbers, the two flow rates strings.
\<close>

record PointSystemEligibility =
  pointSystemId :: int
  pointSystemName :: string
  eligible :: bool
  points_e :: int
  claimedAmount :: int
  needToClaim :: bool
  gdaPoolAddress_e :: string
  estimatedFlowRate :: string

record AddressEligibility =
  address_e :: string
  hasAllocations :: bool
  claimNeeded :: bool
  totalFlowRate :: string
  eligibility :: "PointSystemEligibility list"

section \<open>Operational events (utils/logger.ts)\<close>

text \<open>
  Each constructor is one message template of a \<open>logger.slackNotify\<close> call, with the
  values interpolated into it; the level defaults to \<open>'info'\<close>.
  \<^item> \<open>ProgramCheckFailed id addresses error\<close>: "Failed to check eligibility for program
    (ID: id) for addresses: addresses. Error: error"
  \<^item> \<open>OverThreshold address currentPoints pointsToAssign maxUsers\<close>: "Address address has
    currentPoints points, not auto-assigning pointsToAssign points because we're over the
    threshold of maxUsers users per hour"
  \<^item> \<open>NonceFailed address error\<close>: "Failed to get nonce for address address: error"
  \<^item> \<open>LockerAddressesFailed addresses error\<close>, \<open>ClaimStatusesFailed addresses error\<close>:
    "Failed to get locker addresses (claim statuses) for addresses: addresses: error"
  \<^item> \<open>RefreshedData address\<close>: "Refreshed data for address from stack.so"
  \<^item> \<open>AssignedAndAdded points address n k\<close>: "Successfully assigned points points to
    address and added address to recipients list. n recipients in list. k in the last hour"
  \<^item> \<open>AssignedFor points address event\<close>: "Successfully assigned points points to address
    for event"
  \<^item> \<open>AssignFailedStatus status\<close>: "Failed to assign points, received status status"
  \<^item> \<open>AssignFailed points address\<close>: "Failed to assign points points to address"
\<close>

datatype level = Info | ErrorLevel

datatype notification =
    ProgramCheckFailed int "string list" error
  | OverThreshold string int int int
  | NonceFailed string error
  | LockerAddressesFailed "string list" error
  | ClaimStatusesFailed "string list" error
  | RefreshedData string
  | AssignedAndAdded int string nat nat
  | AssignedFor int string string
  | AssignFailedStatus int
  | AssignFailed int string

type_synonym event = "notification \<times> level"

section \<open>The allocation source client (services/stack/stackApiService.ts)\<close>

record grant_event =
  ge_name :: string
  ge_account :: string
  ge_pointSystemId :: int
  ge_uniqueId :: string
  ge_points :: int

text \<open>
  The external ledger service: the answer to the allocation read of a point system for a
  list of addresses (the allocations of the response, or the failure of the request), and
  the HTTP status answered to a posted grant event (or the failure of the request).
\<close>

record stack_api =
  post_allocations :: "int \<Rightarrow> string list \<Rightarrow> error + StackAllocation list"
  post_event :: "grant_event \<Rightarrow> error + int"

definition fetchAllocations :: "stack_api \<Rightarrow> int \<Rightarrow> string list \<Rightarrow> error + StackAllocation list" where
  "fetchAllocations api psId addresses =
     (case post_allocations api psId addresses of
        Inr allocations \<Rightarrow> Inr allocations
      | Inl e \<Rightarrow> Inl (Error (''Failed to fetch allocations: '' @ message e)))"

text \<open>
  One step of the fan-out of \<open>fetchAllAllocations\<close>, on the map built so far and the
  events emitted so far. The fetches run concurrently; they are taken in configuration
  order here.
\<close>

definition fetchInto ::
  "stack_api \<Rightarrow> string list \<Rightarrow> (int \<rightharpoonup> StackAllocation list) \<times> event list \<Rightarrow> PointSystem
     \<Rightarrow> (int \<rightharpoonup> StackAllocation list) \<times> event list" where
  "fetchInto api addresses acc pointSystem =
     (case fetchAllocations api (ps_id pointSystem) addresses of
        Inr allocations \<Rightarrow> ((fst acc)(ps_id pointSystem \<mapsto> allocations), snd acc)
      | Inl e \<Rightarrow>
          ((fst acc)(ps_id pointSystem \<mapsto> []),
           snd acc @ [(ProgramCheckFailed (ps_id pointSystem) addresses e, Info)]))"

definition fetchAllAllocations ::
  "config \<Rightarrow> stack_api \<Rightarrow> string list \<Rightarrow> (int \<rightharpoonup> StackAllocation list) \<times> event list" where
  "fetchAllAllocations cfg api addresses =
     foldl (fetchInto api addresses) (Map.empty, []) (pointSystems cfg)"

text \<open>
  \<open>assignPoints(address, points, eventName)\<close> at time \<open>now\<close>: the returned flag, the
  recipient file afterwards and the events emitted. \<open>grantData\<close> is the event that is
  posted. The module has its own constant \<open>COMMUNITY_ACTIVATION_ID = 7370\<close>; the time window
  comes from the configuration.
\<close>

definition grantData :: "string \<Rightarrow> int \<Rightarrow> string \<Rightarrow> grant_event" where
  "grantData a pts eventName =
     \<lparr> ge_name = eventName, ge_account = toLowerCase a, ge_pointSystemId = 7370,
       ge_uniqueId = uniqueId eventName a, ge_points = pts \<rparr>"

definition assignPoints ::
  "config \<Rightarrow> stack_api \<Rightarrow> io \<Rightarrow> int \<Rightarrow> UniversalPointRecipient list \<Rightarrow> string \<Rightarrow> int \<Rightarrow> string
     \<Rightarrow> bool \<times> UniversalPointRecipient list \<times> event list" where
  "assignPoints cfg api fs now file a pts eventName =
     (let data = grantData a pts eventName
      in case post_event api data of
           Inl e \<Rightarrow> (False, file, [(AssignFailed pts a, ErrorLevel)])
         | Inr status \<Rightarrow>
             if 200 \<le> status \<and> status < 300 then
               (if eventName = ''universal_allocation'' then
                  (let file' = snd (addRecipient fs now file (no_fields\<lparr>p_address := Some a\<rparr>));
                       recipients = getStoredRecipients fs file';
                       lastHour = length (latestRecipients fs now file' (THRESHOLD_TIME_PERIOD cfg))
                   in (True, file', [(AssignedAndAdded pts a (length recipients) lastHour, Info)]))
                else if str_includes eventName ''completed_level'' then
                  (True, file, [(AssignedFor pts a eventName, Info)])
                else if eventName = ''referral_reward'' then
                  (True, file, [(AssignedFor pts a eventName, Info)])
                else (True, file, []))
             else (False, file, [(AssignFailedStatus status, ErrorLevel)]))"

section \<open>The chain state client (services/blockchain/blockchainService.ts)\<close>

text \<open>
  The chain: the answers of the contract reads (or their failures). \<open>getClient\<close> is
  \<open>Some e\<close> when creating the public client throws \<open>e\<close>.
\<close>

record chain =
  getClient :: "error option"
  getTransactionCount :: "string \<Rightarrow> error + int"
  getUserLocker :: "string \<Rightarrow> error + bool \<times> string"
  getUnits :: "string \<Rightarrow> string \<Rightarrow> error + int"
  getTotalUnits :: "string \<Rightarrow> error + int"

definition zero_address :: string where
  "zero_address = ''0x0000000000000000000000000000000000000000''"

definition getUserNonce :: "chain \<Rightarrow> string \<Rightarrow> error + int" where
  "getUserNonce c a =
     (case getTransactionCount c a of Inl e \<Rightarrow> Inl e | Inr transactionCount \<Rightarrow> Inr (Number transactionCount))"

text \<open>
  The entries that the two memoized accessors find in the expiring caches: those of
  \<open>halfDayCache\<close> under the keys \<open>lockerAddress:<address>\<close> and those of \<open>oneHourCache\<close> under the
  keys \<open>totalUnits:<pool>\<close>, each with the value its promise was fulfilled with.
\<close>

record memoized =
  lockerAddress_cache :: "string \<rightharpoonup> string"
  totalUnits_cache :: "string \<rightharpoonup> int"

text \<open>
  \<open>getTotalUnitsMemoized(gdaPoolAddress)\<close> builds \<open>pMemoize(this.getTotalUnits, ...)\<close> and calls
  the result as a plain function. The method is handed over without its receiver, so on a
  cache miss \<open>getTotalUnits\<close> runs with \<open>this\<close> undefined, \<open>this.client\<close> throws, and the
  rejected promise is taken out of the cache again: a miss always rejects and stores
  nothing; only an entry that is already there is returned.
\<close>

definition getTotalUnitsMemoized :: "memoized \<Rightarrow> string \<Rightarrow> error + int" where
  "getTotalUnitsMemoized m pool =
     (case totalUnits_cache m (''totalUnits:'' @ pool) of
        Some units \<Rightarrow> Inr units
      | None \<Rightarrow> Inl (TypeError ''Cannot read properties of undefined (reading 'client')''))"

text \<open>\<open>checkClaimStatus(lockerAddress, gdaPoolAddress)\<close>: a failed read counts as zero.\<close>

definition checkClaimStatus :: "chain \<Rightarrow> string \<Rightarrow> string \<Rightarrow> int" where
  "checkClaimStatus c locker pool =
     (case getUnits c pool locker of Inl e \<Rightarrow> 0 | Inr memberUnits \<Rightarrow> memberUnits)"

text \<open>
  \<open>getLockerAddress(address)\<close> called on the service: the client is created once outside
  the \<open>try\<close> block (for a log line); the contract read is inside it and falls back to the
  zero address.
\<close>

definition getLockerAddress :: "chain \<Rightarrow> string \<Rightarrow> error + string" where
  "getLockerAddress c a =
     (case getClient c of
        Some e \<Rightarrow> Inl e
      | None \<Rightarrow>
          (case getUserLocker c (toLowerCase a) of
             Inl e \<Rightarrow> Inr zero_address
           | Inr (exists, locker) \<Rightarrow> if \<not> exists then Inr zero_address else Inr locker))"

text \<open>
  \<open>getLockerAddressMemoized(address)\<close> builds \<open>pMemoize(this.getLockerAddress, ...)\<close> in the
  same way: on a cache miss \<open>getLockerAddress\<close> runs with \<open>this\<close> undefined and the log line
  with \<open>this.getClient()\<close>, which stands before the \<open>try\<close> block, throws.
\<close>

definition getLockerAddressMemoized :: "memoized \<Rightarrow> string \<Rightarrow> error + string" where
  "getLockerAddressMemoized m a =
     (case lockerAddress_cache m (''lockerAddress:'' @ a) of
        Some locker \<Rightarrow> Inr locker
      | None \<Rightarrow> Inl (TypeError ''Cannot read properties of undefined (reading 'getClient')''))"

text \<open>A \<open>Map\<close> in insertion order: \<open>map_set\<close> is \<open>Map.prototype.set\<close>, \<open>map_of\<close> is \<open>get\<close>.\<close>

fun map_set :: "'k \<Rightarrow> 'v \<Rightarrow> ('k \<times> 'v) list \<Rightarrow> ('k \<times> 'v) list" where
  "map_set k v [] = [(k, v)]"
| "map_set k v (kv # m) = (if fst kv = k then (k, v) # m else kv # map_set k v m)"

fun getLockerAddressesInto ::
  "memoized \<Rightarrow> string list \<Rightarrow> (string \<times> string) list \<Rightarrow> error + (string \<times> string) list" where
  "getLockerAddressesInto m [] lockerAddresses = Inr lockerAddresses"
| "getLockerAddressesInto m (a # addresses) lockerAddresses =
     (case getLockerAddressMemoized m a of
        Inl e \<Rightarrow> Inl e
      | Inr locker \<Rightarrow> getLockerAddressesInto m addresses (map_set a locker lockerAddresses))"

definition getLockerAddressesMemoized :: "memoized \<Rightarrow> string list \<Rightarrow> error + (string \<times> string) list" where
  "getLockerAddressesMemoized m addresses = getLockerAddressesInto m addresses []"

text \<open>
  \<open>checkAllClaimStatuses(lockerAddresses)\<close>: the status map of every address, and the list
  of the pool reads that are issued, as (address, locker, pool). An empty or zero locker is
  filled with zero for every point system without a read. No statement of the function can
  throw. The reads run concurrently; they are taken in the order in which they are issued.
\<close>

definition no_locker :: "string \<Rightarrow> bool" where
  "no_locker locker = (locker = [] \<or> locker = zero_address)"

definition claimStatusesOf :: "config \<Rightarrow> chain \<Rightarrow> string \<Rightarrow> (int \<rightharpoonup> int)" where
  "claimStatusesOf cfg c locker =
     foldl (\<lambda>statusMap pointSystem.
              statusMap(ps_id pointSystem \<mapsto>
                (if no_locker locker then 0 else checkClaimStatus c locker (gdaPoolAddress pointSystem))))
       Map.empty (pointSystems cfg)"

definition claimReadsOf :: "config \<Rightarrow> string \<times> string \<Rightarrow> (string \<times> string \<times> string) list" where
  "claimReadsOf cfg entry =
     (if no_locker (snd entry) then []
      else map (\<lambda>pointSystem. (fst entry, snd entry, gdaPoolAddress pointSystem)) (pointSystems cfg))"

definition checkAllClaimStatuses ::
  "config \<Rightarrow> chain \<Rightarrow> (string \<times> string) list
     \<Rightarrow> (string \<rightharpoonup> (int \<rightharpoonup> int)) \<times> (string \<times> string \<times> string) list" where
  "checkAllClaimStatuses cfg c lockerAddresses =
     (map_of (map (\<lambda>entry. (fst entry, claimStatusesOf cfg c (snd entry))) lockerAddresses),
      concat (map (claimReadsOf cfg) lockerAddresses))"

section \<open>The eligibility service (services/eligibilityService.ts)\<close>

subsection \<open>Auto-assignment\<close>

text \<open>
  The allocation of one address in \<open>autoAssignPoints\<close>: the updated allocation, the events
  and the grant calls \<open>assignPoints(address, POINTS_TO_ASSIGN)\<close> that are started without
  being awaited. \<open>file\<close> is the recipient file at the moment of the quota check.
\<close>

definition NONCE_THRESHOLD :: int where
  "NONCE_THRESHOLD = 5"

definition findAllocation :: "StackAllocation list \<Rightarrow> string \<Rightarrow> StackAllocation option" where
  "findAllocation allocations a =
     find (\<lambda>al. toLowerCase (accountAddress al) = toLowerCase a) allocations"

definition autoAssignOne ::
  "config \<Rightarrow> chain \<Rightarrow> io \<Rightarrow> int \<Rightarrow> UniversalPointRecipient list \<Rightarrow> StackAllocation list \<Rightarrow> string
     \<Rightarrow> StackAllocation \<times> event list \<times> (string \<times> int) list" where
  "autoAssignOne cfg c fs now file communityAllocations a =
     (let existingAllocation =
            (case findAllocation communityAllocations a of
               Some al \<Rightarrow> al
             | None \<Rightarrow>
                 \<lparr> pointSystemUuid = ''28abd1a3-bba1-43af-9033-5059580c1b61'', accountAddress = a,
                   points = 0, maxCreatedAt = now, allocation = 0 \<rparr>);
          currentPoints = points existingAllocation
      in case getUserNonce c a of
           Inl e \<Rightarrow> (existingAllocation\<lparr>points := currentPoints\<rparr>, [(NonceFailed a e, Info)], [])
         | Inr userNonce \<Rightarrow>
             if currentPoints < POINT_THRESHOLD cfg \<and> userNonce > NONCE_THRESHOLD then
               (let recipientsToppedUp =
                      length (latestRecipients fs now file (THRESHOLD_TIME_PERIOD cfg))
                in if int recipientsToppedUp < THRESHOLD_MAX_USERS cfg then
                     (existingAllocation\<lparr>points := number_add currentPoints (POINTS_TO_ASSIGN cfg)\<rparr>,
                      [], [(a, POINTS_TO_ASSIGN cfg)])
                   else
                     (existingAllocation\<lparr>points := currentPoints\<rparr>,
                      [(OverThreshold a currentPoints (POINTS_TO_ASSIGN cfg) (THRESHOLD_MAX_USERS cfg), Info)],
                      []))
             else (existingAllocation\<lparr>points := currentPoints\<rparr>, [], []))"

text \<open>
  \<open>autoAssignPoints\<close>: one allocation per input address, in input order. The addresses
  are processed concurrently; here every quota check reads the recipient file as it is
  when the batch starts, a grant being recorded only once its request has been answered.
\<close>

definition autoAssignPoints ::
  "config \<Rightarrow> chain \<Rightarrow> io \<Rightarrow> int \<Rightarrow> UniversalPointRecipient list \<Rightarrow> string list
     \<Rightarrow> (int \<rightharpoonup> StackAllocation list) \<Rightarrow> StackAllocation list \<times> event list \<times> (string \<times> int) list" where
  "autoAssignPoints cfg c fs now file addresses allAllocations =
     (let communityAllocations =
            (case allAllocations (COMMUNITY_ACTIVATION_ID cfg) of Some l \<Rightarrow> l | None \<Rightarrow> []);
          updated = map (autoAssignOne cfg c fs now file communityAllocations) addresses
      in (map fst updated, concat (map (fst \<circ> snd) updated), concat (map (snd \<circ> snd) updated)))"

subsection \<open>Combining the data\<close>

text \<open>
  The body of the loop over the point systems for one address: the eligibility entry and
  the estimated flow rate as a bigint, or the exception of the bigint division.
\<close>

definition SCALE :: int where
  "SCALE = 1000000000"

definition pointSystemEntry ::
  "PointSystem \<Rightarrow> (int \<rightharpoonup> StackAllocation list) \<Rightarrow> (string \<rightharpoonup> (int \<rightharpoonup> int)) \<Rightarrow> string
     \<Rightarrow> error + PointSystemEligibility \<times> int" where
  "pointSystemEntry pointSystem allAllocations allClaimStatuses a =
     (let allocations = (case allAllocations (ps_id pointSystem) of Some l \<Rightarrow> l | None \<Rightarrow> []);
          pts = (case findAllocation allocations a of Some al \<Rightarrow> points al | None \<Rightarrow> 0);
          claimStatus =
            (case allClaimStatuses a of None \<Rightarrow> None | Some statusMap \<Rightarrow> statusMap (ps_id pointSystem));
          amountToClaimBigInt = pts - (case claimStatus of Some u \<Rightarrow> u | None \<Rightarrow> 0);
          amountToClaim = Number amountToClaimBigInt;
          estimate =
            (if totalUnits pointSystem > 0 then
               (let totalUnitsBigInt = number_add (totalUnits pointSystem) amountToClaim in
                case bigint_div (pts * SCALE) totalUnitsBigInt of
                  Inl e \<Rightarrow> Inl e
                | Inr share \<Rightarrow> bigint_div (share * flowrate pointSystem) SCALE)
             else Inr 0)
      in case estimate of
           Inl e \<Rightarrow> Inl e
         | Inr estimatedFlowRateBigInt \<Rightarrow>
             Inr (\<lparr> pointSystemId = ps_id pointSystem,
                    pointSystemName = ps_name pointSystem,
                    eligible = (pts > 0),
                    points_e = pts,
                    claimedAmount = (case claimStatus of Some u \<Rightarrow> Number u | None \<Rightarrow> 0),
                    needToClaim = (amountToClaimBigInt > 0),
                    gdaPoolAddress_e = gdaPoolAddress pointSystem,
                    estimatedFlowRate = bigint_toString estimatedFlowRateBigInt \<rparr>,
                  estimatedFlowRateBigInt))"

text \<open>
  The loop over the point systems, on the entries collected so far, the two flags and the
  running total.
\<close>

fun forEachPointSystem ::
  "(int \<rightharpoonup> StackAllocation list) \<Rightarrow> (string \<rightharpoonup> (int \<rightharpoonup> int)) \<Rightarrow> string \<Rightarrow> PointSystem list
     \<Rightarrow> PointSystemEligibility list \<times> bool \<times> bool \<times> int
     \<Rightarrow> error + PointSystemEligibility list \<times> bool \<times> bool \<times> int" where
  "forEachPointSystem allAllocations allClaimStatuses a [] acc = Inr acc"
| "forEachPointSystem allAllocations allClaimStatuses a (pointSystem # rest) acc =
     (case pointSystemEntry pointSystem allAllocations allClaimStatuses a of
        Inl e \<Rightarrow> Inl e
      | Inr (obj, estimatedFlowRateBigInt) \<Rightarrow>
          (case acc of (entries, claimNeeded0, hasAllocations0, totalFlowRateBigInt) \<Rightarrow>
             forEachPointSystem allAllocations allClaimStatuses a rest
               (entries @ [obj],
                claimNeeded0 \<or> needToClaim obj,
                hasAllocations0 \<or> points_e obj > 0,
                totalFlowRateBigInt + estimatedFlowRateBigInt)))"

definition addressEligibility ::
  "PointSystem list \<Rightarrow> (int \<rightharpoonup> StackAllocation list) \<Rightarrow> (string \<rightharpoonup> (int \<rightharpoonup> int)) \<Rightarrow> string
     \<Rightarrow> error + AddressEligibility" where
  "addressEligibility systems allAllocations allClaimStatuses a =
     (case forEachPointSystem allAllocations allClaimStatuses a systems ([], False, False, 0) of
        Inl e \<Rightarrow> Inl e
      | Inr (entries, claimNeeded0, hasAllocations0, totalFlowRateBigInt) \<Rightarrow>
          Inr \<lparr> address_e = a,
                hasAllocations = hasAllocations0,
                claimNeeded = claimNeeded0,
                totalFlowRate = bigint_toString totalFlowRateBigInt,
                eligibility = entries \<rparr>)"

text \<open>\<open>addresses.map(...)\<close>: the records in input order and one event per address that is reached.\<close>

fun combineAll ::
  "PointSystem list \<Rightarrow> (int \<rightharpoonup> StackAllocation list) \<Rightarrow> (string \<rightharpoonup> (int \<rightharpoonup> int)) \<Rightarrow> string list
     \<Rightarrow> (error + AddressEligibility list) \<times> event list" where
  "combineAll systems allAllocations allClaimStatuses [] = (Inr [], [])"
| "combineAll systems allAllocations allClaimStatuses (a # addresses) =
     (case addressEligibility systems allAllocations allClaimStatuses a of
        Inl e \<Rightarrow> (Inl e, [])
      | Inr r \<Rightarrow>
          (case combineAll systems allAllocations allClaimStatuses addresses of
             (Inl e, events) \<Rightarrow> (Inl e, (RefreshedData a, Info) # events)
           | (Inr rs, events) \<Rightarrow> (Inr (r # rs), (RefreshedData a, Info) # events)))"

text \<open>
  The loop that refreshes \<open>totalUnits\<close> of every point system; it stands outside every
  \<open>try\<close> block of \<open>_checkEligibility\<close>, so a rejected accessor ends the call. The source
  assigns into the shared configuration object; the result is the list of point systems
  that the rest of the call reads.
\<close>

fun refreshTotalUnits :: "memoized \<Rightarrow> PointSystem list \<Rightarrow> error + PointSystem list" where
  "refreshTotalUnits m [] = Inr []"
| "refreshTotalUnits m (pointSystem # rest) =
     (case getTotalUnitsMemoized m (gdaPoolAddress pointSystem) of
        Inl e \<Rightarrow> Inl e
      | Inr units \<Rightarrow>
          (case refreshTotalUnits m rest of
             Inl e \<Rightarrow> Inl e
           | Inr rest' \<Rightarrow> Inr (pointSystem\<lparr>totalUnits := Number units\<rparr> # rest')))"


subsection \<open>The eligibility check\<close>

text \<open>
  What a run leaves behind: the returned records or the exception, the events, the grant
  calls that were started, and the claim-status reads that were issued.
\<close>

record run =
  result :: "error + AddressEligibility list"
  events :: "event list"
  grants :: "(string \<times> int) list"
  reads :: "(string \<times> string \<times> string) list"

text \<open>
  \<open>_checkEligibility(addresses, apiConsumerName)\<close> at time \<open>now\<close>, on the recipient file
  \<open>file\<close> and the memoized entries \<open>m\<close>. The consumer name only appears in a log line. A
  rejected locker lookup is caught and replaced by the empty map.
\<close>

definition checkEligibility_impl ::
  "config \<Rightarrow> stack_api \<Rightarrow> chain \<Rightarrow> memoized \<Rightarrow> io \<Rightarrow> int \<Rightarrow> UniversalPointRecipient list
     \<Rightarrow> string list \<Rightarrow> string option \<Rightarrow> run" where
  "checkEligibility_impl cfg api c m fs now file addresses apiConsumerName =
     (let fetched = fetchAllAllocations cfg api addresses;
          assigned = autoAssignPoints cfg c fs now file addresses (fst fetched);
          allAllocations = (fst fetched)(COMMUNITY_ACTIVATION_ID cfg \<mapsto> fst assigned);
          lockers =
            (case getLockerAddressesMemoized m addresses of
               Inr lockerAddresses \<Rightarrow> (lockerAddresses, [])
             | Inl e \<Rightarrow> ([], [(LockerAddressesFailed addresses e, Info)]));
          statuses = checkAllClaimStatuses cfg c (fst lockers);
          before = snd fetched @ fst (snd assigned) @ snd lockers
      in case refreshTotalUnits m (pointSystems cfg) of
           Inl e \<Rightarrow>
             \<lparr> result = Inl e, events = before, grants = snd (snd assigned), reads = snd statuses \<rparr>
         | Inr systems \<Rightarrow>
             (let combined = combineAll systems allAllocations (fst statuses) addresses
              in \<lparr> result = fst combined, events = before @ snd combined,
                    grants = snd (snd assigned), reads = snd statuses \<rparr>))"

text \<open>
  \<open>checkEligibilityMemoized\<close>: for every address a memoized call of \<open>_checkEligibility\<close>
  under the key of the lower-cased address. The memoized function is called with the one
  argument \<open>[address, apiConsumerName]\<close>, which arrives as the parameter \<open>addresses\<close>, the
  parameter \<open>apiConsumerName\<close> staying undefined. \<open>promises\<close> is the cache of the memoizer:
  a call stores its promise under the key at once, so that a later call with the same key
  gets the same outcome.
\<close>

definition cacheKey :: "string \<Rightarrow> string" where
  "cacheKey a = ''check-eligibility-'' @ toLowerCase a"

record memo =
  outcomes :: "(error + AddressEligibility list) list"
  promises :: "string \<rightharpoonup> (error + AddressEligibility list)"
  memo_events :: "event list"
  memo_grants :: "(string \<times> int) list"
  memo_reads :: "(string \<times> string \<times> string) list"

fun memoizedCalls ::
  "config \<Rightarrow> stack_api \<Rightarrow> chain \<Rightarrow> memoized \<Rightarrow> io \<Rightarrow> int \<Rightarrow> UniversalPointRecipient list
     \<Rightarrow> (string \<rightharpoonup> (error + AddressEligibility list)) \<Rightarrow> string list \<Rightarrow> string \<Rightarrow> memo" where
  "memoizedCalls cfg api c m fs now file cache [] apiConsumerName =
     \<lparr> outcomes = [], promises = cache, memo_events = [], memo_grants = [], memo_reads = [] \<rparr>"
| "memoizedCalls cfg api c m fs now file cache (a # addresses) apiConsumerName =
     (case cache (cacheKey a) of
        Some cached \<Rightarrow>
          (let rest = memoizedCalls cfg api c m fs now file cache addresses apiConsumerName
           in rest\<lparr>outcomes := cached # outcomes rest\<rparr>)
      | None \<Rightarrow>
          (let r = checkEligibility_impl cfg api c m fs now file [a, apiConsumerName] None;
               rest = memoizedCalls cfg api c m fs now file (cache(cacheKey a \<mapsto> result r)) addresses
                        apiConsumerName
           in \<lparr> outcomes = result r # outcomes rest,
                 promises = promises rest,
                 memo_events = events r @ memo_events rest,
                 memo_grants = grants r @ memo_grants rest,
                 memo_reads = reads r @ memo_reads rest \<rparr>))"

text \<open>\<open>Promise.all\<close> followed by \<open>flat()\<close>: the first rejection, or the concatenated lists.\<close>

fun flatAll :: "(error + 'a list) list \<Rightarrow> error + 'a list" where
  "flatAll [] = Inr []"
| "flatAll (Inl e # rs) = Inl e"
| "flatAll (Inr xs # rs) = (case flatAll rs of Inl e \<Rightarrow> Inl e | Inr ys \<Rightarrow> Inr (xs @ ys))"

text \<open>
  \<open>checkEligibility(addresses, apiConsumerName)\<close>. \<open>cache\<close> holds the results of
  \<open>_checkEligibility\<close> that are memoized when the call starts and \<open>m\<close> the memoized entries
  of the two accessors; a rejected promise is removed from the cache again.
\<close>

record outcome =
  returned :: "error + AddressEligibility list"
  cache_after :: "string \<rightharpoonup> AddressEligibility list"
  emitted :: "event list"
  granted :: "(string \<times> int) list"
  claim_reads :: "(string \<times> string \<times> string) list"

definition checkEligibility ::
  "config \<Rightarrow> stack_api \<Rightarrow> chain \<Rightarrow> memoized \<Rightarrow> io \<Rightarrow> int \<Rightarrow> UniversalPointRecipient list
     \<Rightarrow> (string \<rightharpoonup> AddressEligibility list) \<Rightarrow> string list \<Rightarrow> string \<Rightarrow> outcome" where
  "checkEligibility cfg api c m fs now file cache addresses apiConsumerName =
     (let calls = memoizedCalls cfg api c m fs now file (\<lambda>k. map_option Inr (cache k)) addresses
                    apiConsumerName
      in \<lparr> returned =
             (case flatAll (outcomes calls) of
                Inr results \<Rightarrow> Inr results
              | Inl e \<Rightarrow> Inl (Error (''Failed to check eligibility: '' @ message e))),
           cache_after = (\<lambda>k. case promises calls k of Some (Inr rs) \<Rightarrow> Some rs | _ \<Rightarrow> None),
           emitted = memo_events calls,
           granted = memo_grants calls,
           claim_reads = memo_reads calls \<rparr>)"

subsection \<open>Sequential submissions\<close>

text \<open>
  One submission of a single address that is completed before the next one starts: the
  auto-assignment of the address at time \<open>checked\<close>, then every grant call it started is
  answered and handled at time \<open>answered\<close>.
\<close>

fun settleGrants ::
  "config \<Rightarrow> stack_api \<Rightarrow> io \<Rightarrow> int \<Rightarrow> UniversalPointRecipient list \<Rightarrow> (string \<times> int) list
     \<Rightarrow> UniversalPointRecipient list \<times> event list" where
  "settleGrants cfg api fs now file [] = (file, [])"
| "settleGrants cfg api fs now file (g # gs) =
     (case assignPoints cfg api fs now file (fst g) (snd g) ''universal_allocation'' of
        (ok, file', evs) \<Rightarrow>
          (case settleGrants cfg api fs now file' gs of (file'', evs') \<Rightarrow> (file'', evs @ evs')))"

definition submit ::
  "config \<Rightarrow> stack_api \<Rightarrow> chain \<Rightarrow> io \<Rightarrow> (int \<rightharpoonup> StackAllocation list) \<Rightarrow> int \<Rightarrow> int
     \<Rightarrow> UniversalPointRecipient list \<Rightarrow> string
     \<Rightarrow> UniversalPointRecipient list \<times> (string \<times> int) list \<times> event list" where
  "submit cfg api c fs allAllocations checked answered file a =
     (case autoAssignPoints cfg c fs checked file [a] allAllocations of
        (allocations, evs, started) \<Rightarrow>
          (fst (settleGrants cfg api fs answered file started), started, evs))"

section \<open>Bulk locker discovery (getLockers)\<close>

record locker =
  lockerOwner :: string
  locker_id :: string
  blockTimestamp :: string

text \<open>
  The indexing service answers a query, given by its \<open>first\<close> and \<open>skip\<close> arguments, with a
  page of lockers or fails. The query text is built once, before the loop, from the
  values \<open>pageSize\<close> and \<open>skip = 0\<close>; the loop posts that text on every iteration.
\<close>

definition pageSize :: nat where
  "pageSize = 1000"

definition matchLocker ::
  "string list \<Rightarrow> (string \<times> string \<times> string) list \<Rightarrow> locker \<Rightarrow> (string \<times> string \<times> string) list" where
  "matchLocker addresses lockerAddresses l =
     (let ownerAddress = toLowerCase (lockerOwner l)
      in if list_ex (\<lambda>addr. toLowerCase addr = ownerAddress) addresses
         then map_set ownerAddress (locker_id l, blockTimestamp l) lockerAddresses
         else lockerAddresses)"

partial_function (option) getLockers_loop ::
  "(nat \<times> nat \<Rightarrow> error + locker list) \<Rightarrow> nat \<times> nat \<Rightarrow> string list
     \<Rightarrow> (string \<times> string \<times> string) list \<Rightarrow> nat \<Rightarrow> (string \<times> string \<times> string) list option" where
  "getLockers_loop graph query addresses lockerAddresses skip =
     (case graph query of
        Inl e \<Rightarrow> Some lockerAddresses
      | Inr lockers \<Rightarrow>
          (let found = foldl (matchLocker addresses) lockerAddresses lockers
           in if length found = length addresses \<or> length lockers < pageSize then Some found
              else getLockers_loop graph query addresses found (skip + pageSize)))"

definition getLockers ::
  "(nat \<times> nat \<Rightarrow> error + locker list) \<Rightarrow> string list \<Rightarrow> (string \<times> string \<times> string) list option" where
  "getLockers graph addresses = getLockers_loop graph (pageSize, 0) addresses [] 0"

section \<open>Auxiliary notions for the properties\<close>

text \<open>The current points of an address in \<open>autoAssignPoints\<close> (\<open>existingAllocation?.points || 0\<close>).\<close>

definition currentPointsOf :: "StackAllocation list \<Rightarrow> string \<Rightarrow> int" where
  "currentPointsOf communityAllocations a =
     (case findAllocation communityAllocations a of Some al \<Rightarrow> points al | None \<Rightarrow> 0)"


text \<open>
  The points and the claimed units of an address in a point system, as the loop over the
  point systems reads them from the two maps (0 where there is no entry).
\<close>

definition pointsOf :: "(int \<rightharpoonup> StackAllocation list) \<Rightarrow> int \<Rightarrow> string \<Rightarrow> int" where
  "pointsOf allAllocations psId a =
     (case findAllocation (case allAllocations psId of Some l \<Rightarrow> l | None \<Rightarrow> []) a of
        Some al \<Rightarrow> points al
      | None \<Rightarrow> 0)"

definition claimStatusOf :: "(string \<rightharpoonup> (int \<rightharpoonup> int)) \<Rightarrow> int \<Rightarrow> string \<Rightarrow> int option" where
  "claimStatusOf allClaimStatuses psId a =
     (case allClaimStatuses a of None \<Rightarrow> None | Some statusMap \<Rightarrow> statusMap psId)"

definition claimedUnitsOf :: "(string \<rightharpoonup> (int \<rightharpoonup> int)) \<Rightarrow> int \<Rightarrow> string \<Rightarrow> int" where
  "claimedUnitsOf allClaimStatuses psId a =
     (case claimStatusOf allClaimStatuses psId a of Some u \<Rightarrow> u | None \<Rightarrow> 0)"




text \<open>The allocations of the primary point system as \<open>autoAssignPoints\<close> reads them.\<close>

definition communityAllocationsOf :: "config \<Rightarrow> (int \<rightharpoonup> StackAllocation list) \<Rightarrow> StackAllocation list" where
  "communityAllocationsOf cfg allAllocations =
     (case allAllocations (COMMUNITY_ACTIVATION_ID cfg) of Some l \<Rightarrow> l | None \<Rightarrow> [])"

text \<open>An address that qualifies for the bonus: points below the threshold, nonce above 5.\<close>

definition qualifies :: "config \<Rightarrow> chain \<Rightarrow> (int \<rightharpoonup> StackAllocation list) \<Rightarrow> string \<Rightarrow> bool" where
  "qualifies cfg c allAllocations a =
     (currentPointsOf (communityAllocationsOf cfg allAllocations) a < POINT_THRESHOLD cfg \<and>
      (case getUserNonce c a of Inl e \<Rightarrow> False | Inr userNonce \<Rightarrow> userNonce > NONCE_THRESHOLD))"

text \<open>A ledger service that answers every grant event with status 200.\<close>

definition accepts_grants :: "stack_api \<Rightarrow> bool" where
  "accepts_grants api = (\<forall>d. post_event api d = Inr 200)"

section \<open>Concrete inputs\<close>

definition io_ok :: io where
  "io_ok = \<lparr> file_readable = True, file_writable = True \<rparr>"

definition recipient_of :: "string \<Rightarrow> int \<Rightarrow> UniversalPointRecipient" where
  "recipient_of a t =
     \<lparr> address = a, topUpDate = t, lockerAddress = None, lockerCheckedDate = None,
       claimed = None, lastChecked = None \<rparr>"


text \<open>
  A chain on which \<open>0xaaa\<close> has sent six transactions and \<open>0xbbb\<close> five, nobody has a
  locker, and every pool has 10000 units.
\<close>

definition chain_demo :: chain where
  "chain_demo =
     \<lparr> getClient = None,
       getTransactionCount =
         (\<lambda>a. if a = ''0xaaa'' then Inr 6 else if a = ''0xbbb'' then Inr 5
              else Inl (Error ''invalid address'')),
       getUserLocker = (\<lambda>a. Inr (False, zero_address)),
       getUnits = (\<lambda>pool member. Inr 0),
       getTotalUnits = (\<lambda>pool. Inr 10000) \<rparr>"

text \<open>
  Memoized entries: none at all (the state in which the service starts), and the entries
  for a list of addresses with their lockers and for the pools of the default
  configuration, each with the same number of units.
\<close>

definition memoized_cold :: memoized where
  "memoized_cold = \<lparr> lockerAddress_cache = Map.empty, totalUnits_cache = Map.empty \<rparr>"

definition memoized_of :: "(string \<times> string) list \<Rightarrow> int \<Rightarrow> memoized" where
  "memoized_of lockers units =
     \<lparr> lockerAddress_cache = map_of (map (\<lambda>entry. (''lockerAddress:'' @ fst entry, snd entry)) lockers),
       totalUnits_cache =
         map_of (map (\<lambda>pointSystem. (''totalUnits:'' @ gdaPoolAddress pointSystem, units))
                   (pointSystems config_default)) \<rparr>"

text \<open>
  Entries under which \<open>0xAAA\<close>, \<open>0xBBB\<close> and \<open>app\<close> have no locker and every pool has 10000
  units.
\<close>

definition memoized_demo :: memoized where
  "memoized_demo =
     memoized_of [(''0xAAA'', zero_address), (''0xBBB'', zero_address), (''app'', zero_address)] 10000"

definition allocation_of :: "string \<Rightarrow> int \<Rightarrow> StackAllocation" where
  "allocation_of a p =
     \<lparr> pointSystemUuid = ''28abd1a3-bba1-43af-9033-5059580c1b61'', accountAddress = a,
       points = p, maxCreatedAt = 0, allocation = 0 \<rparr>"

text \<open>
  A configuration with a quota of two grants per hour, a ledger service that accepts every
  grant, and a chain on which every account has sent six transactions.
\<close>

definition config_quota2 :: config where
  "config_quota2 = config_default\<lparr>THRESHOLD_MAX_USERS := 2\<rparr>"

definition api_accepting :: stack_api where
  "api_accepting = \<lparr> post_allocations = (\<lambda>psId addresses. Inr []), post_event = (\<lambda>d. Inr 200) \<rparr>"

definition chain_active :: chain where
  "chain_active = chain_demo\<lparr>getTransactionCount := (\<lambda>a. Inr 6)\<rparr>"






text \<open>
  A ledger service that holds 500 points for \<open>0xaaa\<close> in point system 7691 and nothing
  else, one that holds \<open>2 ^ 53\<close> points instead, and one whose allocation read fails for
  point system 7695.
\<close>

definition api_demo :: stack_api where
  "api_demo =
     \<lparr> post_allocations =
         (\<lambda>psId addresses. if psId = 7691 then Inr [allocation_of ''0xaaa'' 500] else Inr []),
       post_event = (\<lambda>d. Inr 200) \<rparr>"






text \<open>
  An indexing service whose most recent 1000 lockers are owned by the accounts \<open>0xb0\<close>,
  \<open>0xb1\<close>, ..., \<open>0xb999\<close>; it answers every query with the page the query asks for.
\<close>

definition locker_of :: "int \<Rightarrow> locker" where
  "locker_of i =
     \<lparr> lockerOwner = ''0xB'' @ bigint_toString i, locker_id = ''0xc'' @ bigint_toString i,
       blockTimestamp = bigint_toString (1700000000 - i) \<rparr>"

definition graph_demo :: "nat \<times> nat \<Rightarrow> error + locker list" where
  "graph_demo query =
     Inr (take (fst query) (drop (snd query) (map (\<lambda>i. locker_of (int i)) [0..<1000])))"

section \<open>Properties\<close>

subsection \<open>Numbers\<close>

lemma Number_small: "\<bar>n\<bar> < 2 ^ 53 \<Longrightarrow> Number n = n"
  by (simp add: Number_def roundToDouble_def mult_sgn_abs)

lemma Number_minus: "Number (- n) = - Number n"
  by (simp add: Number_def sgn_minus)

subsection \<open>The recipient ledger\<close>


lemma findIndex_Some: "findIndex P xs = Some i \<Longrightarrow> i < length xs \<and> P (xs ! i)"
  by (induction xs arbitrary: i) (auto split: option.splits if_splits)












subsection \<open>Auto-assignment\<close>

text \<open>
  C6. A grant call is started for an address only if its current points are strictly below
  \<open>POINT_THRESHOLD\<close> and its nonce is strictly above 5: with current points equal to
  \<open>POINT_THRESHOLD\<close>, and with a transaction count of exactly 5, no grant call is started
  and the points of the address stay as they are.
\<close>

theorem autoAssign_strict_thresholds:
  "(snd (snd (autoAssignOne cfg c fs now ledger communityAllocations a)) \<noteq> [] \<longrightarrow>
      currentPointsOf communityAllocations a < POINT_THRESHOLD cfg \<and>
      (\<exists>n. getUserNonce c a = Inr n \<and> n > 5)) \<and>
   (currentPointsOf communityAllocations a = POINT_THRESHOLD cfg \<longrightarrow>
      snd (snd (autoAssignOne cfg c fs now ledger communityAllocations a)) = [] \<and>
      points (fst (autoAssignOne cfg c fs now ledger communityAllocations a)) = POINT_THRESHOLD cfg) \<and>
   (getTransactionCount c a = Inr 5 \<longrightarrow>
      snd (snd (autoAssignOne cfg c fs now ledger communityAllocations a)) = [] \<and>
      points (fst (autoAssignOne cfg c fs now ledger communityAllocations a)) =
        currentPointsOf communityAllocations a)"
  by (auto simp: autoAssignOne_def currentPointsOf_def NONCE_THRESHOLD_def Let_def
      getUserNonce_def Number_small split: sum.splits option.splits if_splits)

theorem autoAssign_strict_thresholds_witness:
  "snd (snd (autoAssignOne config_default chain_demo io_ok 0 [] [allocation_of ''0xAAA'' 98] ''0xaaa''))
     = [(''0xaaa'', 99)] \<and>
   currentPointsOf [allocation_of ''0xAAA'' 98] ''0xaaa'' < POINT_THRESHOLD config_default \<and>
   getUserNonce chain_demo ''0xaaa'' = Inr 6 \<and>
   currentPointsOf [allocation_of ''0xAAA'' 99] ''0xaaa'' = POINT_THRESHOLD config_default \<and>
   snd (snd (autoAssignOne config_default chain_demo io_ok 0 [] [allocation_of ''0xAAA'' 99] ''0xaaa'')) = [] \<and>
   getTransactionCount chain_demo ''0xbbb'' = Inr 5 \<and>
   snd (snd (autoAssignOne config_default chain_demo io_ok 0 [] [] ''0xbbb'')) = []"
proof -
  have g: "snd (snd (autoAssignOne config_default chain_demo io_ok 0 [] [allocation_of ''0xAAA'' 98] ''0xaaa''))
     = [(''0xaaa'', 99)]"
    by (simp add: autoAssignOne_def findAllocation_def allocation_of_def toLowerCase_def toLowerCase_char_def chain_demo_def
        getUserNonce_def Number_small config_default_def NONCE_THRESHOLD_def latestRecipients_def
        getStoredRecipients_def io_ok_def)
  have p: "currentPointsOf [allocation_of ''0xAAA'' 99] ''0xaaa'' = POINT_THRESHOLD config_default"
    by (simp add: currentPointsOf_def findAllocation_def allocation_of_def toLowerCase_def toLowerCase_char_def config_default_def)
  have n: "getTransactionCount chain_demo ''0xbbb'' = Inr 5"
    by (simp add: chain_demo_def)
  have u: "getUserNonce chain_demo ''0xaaa'' = Inr 6"
    by (simp add: chain_demo_def getUserNonce_def Number_small)
  show ?thesis
    using g p n u
      autoAssign_strict_thresholds [of config_default chain_demo io_ok 0 "[]" "[allocation_of ''0xAAA'' 98]" "''0xaaa''"]
      autoAssign_strict_thresholds [of config_default chain_demo io_ok 0 "[]" "[allocation_of ''0xAAA'' 99]" "''0xaaa''"]
      autoAssign_strict_thresholds [of config_default chain_demo io_ok 0 "[]" "[]" "''0xbbb''"]
    by auto
qed

lemma filter_update_length:
  "i < length xs \<Longrightarrow> \<not> P (xs ! i) \<Longrightarrow> P y \<Longrightarrow>
     length (filter P (xs[i := y])) = Suc (length (filter P xs))"
proof (induction xs arbitrary: i)
  case Nil
  then show ?case by simp
next
  case (Cons x xs)
  then show ?case by (cases i) auto
qed

lemma recipient_update_fields:
  "(r::UniversalPointRecipient)\<lparr>address := a, topUpDate := u\<rparr> =
     \<lparr>address = a, topUpDate = u, lockerAddress = lockerAddress r,
      lockerCheckedDate = lockerCheckedDate r, claimed = claimed r, lastChecked = lastChecked r\<rparr>"
  by (cases r) simp

lemma addRecipient_address_only:
  assumes "file_readable fs" "file_writable fs" "a \<noteq> []"
  shows "snd (addRecipient fs u ledger (no_fields\<lparr>p_address := Some a\<rparr>)) =
     (case findIndex (same_address a) ledger of
        None \<Rightarrow> ledger @ [recipient_of a u]
      | Some i \<Rightarrow> ledger[i := (ledger ! i)\<lparr>address := a, topUpDate := u\<rparr>])"
  using assms
  by (auto simp: addRecipient_def getStoredRecipients_def saveRecipients_def spread_def
      no_fields_def recipient_of_def recipient_update_fields split: option.splits)

lemma addRecipient_fresh_count:
  assumes ok: "file_readable fs" "file_writable fs" "a \<noteq> []"
    and old: "\<forall>r\<in>set ledger. same_address a r \<longrightarrow> topUpDate r < cutoff"
    and new: "cutoff \<le> u"
  shows "length (filter (\<lambda>r. cutoff \<le> topUpDate r) (snd (addRecipient fs u ledger (no_fields\<lparr>p_address := Some a\<rparr>))))
           = Suc (length (filter (\<lambda>r. cutoff \<le> topUpDate r) ledger))"
proof (cases "findIndex (same_address a) ledger")
  case None
  then show ?thesis using ok new by (simp add: addRecipient_address_only recipient_of_def)
next
  case (Some i)
  then have i: "i < length ledger" "same_address a (ledger ! i)"
    using findIndex_Some by fastforce+
  then have "\<not> cutoff \<le> topUpDate (ledger ! i)" using old by (meson nth_mem not_le)
  then show ?thesis using ok new Some i
    by (simp add: addRecipient_address_only filter_update_length)
qed

lemma addRecipient_members:
  assumes ok: "file_readable fs" "file_writable fs" "a \<noteq> []"
    and "r \<in> set (snd (addRecipient fs u ledger (no_fields\<lparr>p_address := Some a\<rparr>)))"
  shows "r \<in> set ledger \<or> (address r = a \<and> topUpDate r = u)"
proof (cases "findIndex (same_address a) ledger")
  case None
  then show ?thesis using assms by (auto simp: addRecipient_address_only recipient_of_def)
next
  case (Some i)
  then have "r \<in> insert ((ledger ! i)\<lparr>address := a, topUpDate := u\<rparr>) (set ledger)"
    using assms set_update_subset_insert by (fastforce simp: addRecipient_address_only)
  then show ?thesis by auto
qed

lemma latestRecipients_filter:
  "file_readable fs \<Longrightarrow> latestRecipients fs t ledger w = filter (\<lambda>r. t - w * 1000 \<le> topUpDate r) ledger"
  by (simp add: latestRecipients_def getStoredRecipients_def)

lemma submit_grant:
  assumes "qualifies cfg c allAllocations a" "accepts_grants api"
    and "int (length (latestRecipients fs checked ledger (THRESHOLD_TIME_PERIOD cfg))) < THRESHOLD_MAX_USERS cfg"
  shows "submit cfg api c fs allAllocations checked answered ledger a =
           (snd (addRecipient fs answered ledger (no_fields\<lparr>p_address := Some a\<rparr>)),
            [(a, POINTS_TO_ASSIGN cfg)], [])"
  using assms
  by (auto simp: submit_def autoAssignPoints_def autoAssignOne_def qualifies_def accepts_grants_def
      communityAllocationsOf_def currentPointsOf_def assignPoints_def Let_def
      split: sum.splits option.splits prod.splits)

lemma submit_skip:
  assumes "qualifies cfg c allAllocations a"
    and "\<not> int (length (latestRecipients fs checked ledger (THRESHOLD_TIME_PERIOD cfg))) < THRESHOLD_MAX_USERS cfg"
  shows "submit cfg api c fs allAllocations checked answered ledger a =
           (ledger, [],
            [(OverThreshold a (currentPointsOf (communityAllocationsOf cfg allAllocations) a)
                (POINTS_TO_ASSIGN cfg) (THRESHOLD_MAX_USERS cfg), Info)])"
  using assms
  by (auto simp: submit_def autoAssignPoints_def autoAssignOne_def qualifies_def
      communityAllocationsOf_def currentPointsOf_def Let_def
      split: sum.splits option.splits prod.splits)


lemma filter_window:
  assumes "\<forall>r\<in>set ledger. topUpDate r < lo \<or> hi \<le> topUpDate r" "lo \<le> cutoff" "cutoff \<le> hi"
  shows "filter (\<lambda>r. cutoff \<le> topUpDate r) ledger = filter (\<lambda>r. hi \<le> topUpDate r) ledger"
  using assms by (intro filter_cong) (auto simp: not_le [symmetric])

text \<open>
  C5. With \<open>THRESHOLD_MAX_USERS = 2\<close> and a window of 3600 seconds, three qualifying
  addresses (different case-insensitively, non-empty) are submitted one after the other,
  each submission being completed, with its grant accepted by the ledger service and
  recorded in a readable and writable recipient file, before the next starts. The
  recipient file may hold any number of recipients whose \<open>topUpDate\<close> is more than 3600
  seconds before the first submission; the first grant is at most 3600 seconds old at the
  third submission. Then the first two submissions each start one grant and record the
  recipient; at the second quota check exactly one recipient of the file has a \<open>topUpDate\<close>
  within the last 3600 seconds, at the third exactly two, and the third submission starts
  no grant, leaves the ledger as it is and emits the over-threshold alert for its address.
  Once both grants are more than 3600 seconds old, no recipient lies in the window and the
  same address is granted.
\<close>

theorem quota_three_sequential_submissions:
  assumes cfg: "THRESHOLD_MAX_USERS cfg = 2" "THRESHOLD_TIME_PERIOD cfg = 3600"
    and fs: "file_readable fs" "file_writable fs"
    and api: "accepts_grants api"
    and addrs: "distinct (map toLowerCase [a1, a2, a3])" "a1 \<noteq> []" "a2 \<noteq> []"
    and q: "qualifies cfg c al1 a1" "qualifies cfg c al2 a2" "qualifies cfg c al3 a3"
    and times: "t1 \<le> u1" "u1 \<le> t2" "t2 \<le> u2" "u2 \<le> t3" "t3 - 3600 * 1000 \<le> u1"
    and later: "u2 < t4 - 3600 * 1000"
    and old: "\<forall>r\<in>set ledger0. topUpDate r < t1 - 3600 * 1000"
    and s1: "submit cfg api c fs al1 t1 u1 ledger0 a1 = (ledger1, g1, e1)"
    and s2: "submit cfg api c fs al2 t2 u2 ledger1 a2 = (ledger2, g2, e2)"
    and s3: "submit cfg api c fs al3 t3 u3 ledger2 a3 = (ledger3, g3, e3)"
    and s4: "submit cfg api c fs al3 t4 u4 ledger3 a3 = (ledger4, g4, e4)"
  shows "g1 = [(a1, POINTS_TO_ASSIGN cfg)] \<and> g2 = [(a2, POINTS_TO_ASSIGN cfg)] \<and> g3 = [] \<and>
         e1 = [] \<and> e2 = [] \<and>
         e3 = [(OverThreshold a3 (currentPointsOf (communityAllocationsOf cfg al3) a3)
                  (POINTS_TO_ASSIGN cfg) 2, Info)] \<and>
         ledger1 = snd (addRecipient fs u1 ledger0 (no_fields\<lparr>p_address := Some a1\<rparr>)) \<and>
         ledger2 = snd (addRecipient fs u2 ledger1 (no_fields\<lparr>p_address := Some a2\<rparr>)) \<and>
         ledger3 = ledger2 \<and>
         filter (\<lambda>r. t1 - 3600 * 1000 \<le> topUpDate r) ledger0 = [] \<and>
         length (filter (\<lambda>r. t2 - 3600 * 1000 \<le> topUpDate r) ledger1) = 1 \<and>
         length (filter (\<lambda>r. t3 - 3600 * 1000 \<le> topUpDate r) ledger2) = 2 \<and>
         filter (\<lambda>r. t4 - 3600 * 1000 \<le> topUpDate r) ledger3 = [] \<and>
         g4 = [(a3, POINTS_TO_ASSIGN cfg)] \<and> e4 = [] \<and>
         ledger4 = snd (addRecipient fs u4 ledger3 (no_fields\<lparr>p_address := Some a3\<rparr>))"
proof -
  define lo where "lo = t1 - 3600 * 1000"
  have lo: "lo \<le> t1 - 3600 * 1000" "lo \<le> t2 - 3600 * 1000" "lo \<le> t3 - 3600 * 1000"
    "t2 - 3600 * 1000 \<le> u1" "t3 - 3600 * 1000 \<le> u1" "lo \<le> u1" "u1 \<le> u2"
    using times by (simp_all add: lo_def)
  have old0: "\<forall>r\<in>set ledger0. topUpDate r < lo"
    using old by (simp add: lo_def)
  have w0: "filter (\<lambda>r. t1 - 3600 * 1000 \<le> topUpDate r) ledger0 = []"
    using old by (auto simp: filter_empty_conv)
  have c0: "int (length (latestRecipients fs t1 ledger0 (THRESHOLD_TIME_PERIOD cfg))) < THRESHOLD_MAX_USERS cfg"
    using w0 cfg fs by (simp add: latestRecipients_filter)
  have r1: "ledger1 = snd (addRecipient fs u1 ledger0 (no_fields\<lparr>p_address := Some a1\<rparr>))"
    and g1: "g1 = [(a1, POINTS_TO_ASSIGN cfg)]" "e1 = []"
    using submit_grant [OF q(1) api c0, of u1] s1 by simp_all
  have J1: "\<forall>r\<in>set ledger1. topUpDate r < lo \<or> (address r = a1 \<and> topUpDate r = u1)"
    using addRecipient_members [OF fs addrs(2)] old0 unfolding r1 by blast
  have "filter (\<lambda>r. u1 \<le> topUpDate r) ledger0 = []"
    using old0 lo by (fastforce simp: filter_empty_conv)
  moreover have "\<forall>r\<in>set ledger0. same_address a1 r \<longrightarrow> topUpDate r < u1"
    using old0 lo by fastforce
  ultimately have n1: "length (filter (\<lambda>r. u1 \<le> topUpDate r) ledger1) = 1"
    unfolding r1 using addRecipient_fresh_count [OF fs addrs(2), of ledger0 u1 u1] by simp
  have v1: "filter (\<lambda>r. t2 - 3600 * 1000 \<le> topUpDate r) ledger1 = filter (\<lambda>r. u1 \<le> topUpDate r) ledger1"
    by (rule filter_window [where lo = lo]) (use J1 lo in auto)
  have w1: "latestRecipients fs t2 ledger1 3600 = filter (\<lambda>r. u1 \<le> topUpDate r) ledger1"
    unfolding latestRecipients_filter [OF fs(1)] by (rule v1)
  have c1: "int (length (latestRecipients fs t2 ledger1 (THRESHOLD_TIME_PERIOD cfg))) < THRESHOLD_MAX_USERS cfg"
    using w1 n1 cfg by simp
  have r2: "ledger2 = snd (addRecipient fs u2 ledger1 (no_fields\<lparr>p_address := Some a2\<rparr>))"
    and g2: "g2 = [(a2, POINTS_TO_ASSIGN cfg)]" "e2 = []"
    using submit_grant [OF q(2) api c1, of u2] s2 by simp_all
  have J2: "\<forall>r\<in>set ledger2. topUpDate r < lo \<or> u1 \<le> topUpDate r"
    using addRecipient_members [OF fs addrs(3)] J1 lo unfolding r2 by fastforce
  have K2: "\<forall>r\<in>set ledger2. topUpDate r \<le> u2"
    using addRecipient_members [OF fs addrs(3)] J1 lo unfolding r2 by fastforce
  have "\<forall>r\<in>set ledger1. same_address a2 r \<longrightarrow> topUpDate r < u1"
    using J1 lo addrs(1) by (fastforce simp: same_address_def)
  then have n2: "length (filter (\<lambda>r. u1 \<le> topUpDate r) ledger2) = 2"
    unfolding r2 using addRecipient_fresh_count [OF fs addrs(3), of ledger1 u1 u2] n1 lo by simp
  have v2: "filter (\<lambda>r. t3 - 3600 * 1000 \<le> topUpDate r) ledger2 = filter (\<lambda>r. u1 \<le> topUpDate r) ledger2"
    by (rule filter_window [where lo = lo]) (use J2 lo in auto)
  have w2: "latestRecipients fs t3 ledger2 3600 = filter (\<lambda>r. u1 \<le> topUpDate r) ledger2"
    unfolding latestRecipients_filter [OF fs(1)] by (rule v2)
  have c2: "\<not> int (length (latestRecipients fs t3 ledger2 (THRESHOLD_TIME_PERIOD cfg))) < THRESHOLD_MAX_USERS cfg"
    using w2 n2 cfg by simp
  have r3: "ledger3 = ledger2" "g3 = []"
    "e3 = [(OverThreshold a3 (currentPointsOf (communityAllocationsOf cfg al3) a3)
                  (POINTS_TO_ASSIGN cfg) 2, Info)]"
    using submit_skip [OF q(3) c2, of api u3] s3 cfg by simp_all
  have v3: "filter (\<lambda>r. t4 - 3600 * 1000 \<le> topUpDate r) ledger3 = []"
    using K2 later unfolding r3(1) by (fastforce simp: filter_empty_conv)
  have c3: "int (length (latestRecipients fs t4 ledger3 (THRESHOLD_TIME_PERIOD cfg))) < THRESHOLD_MAX_USERS cfg"
    using v3 cfg fs by (simp add: latestRecipients_filter)
  have r4: "ledger4 = snd (addRecipient fs u4 ledger3 (no_fields\<lparr>p_address := Some a3\<rparr>))"
    and g4: "g4 = [(a3, POINTS_TO_ASSIGN cfg)]" "e4 = []"
    using submit_grant [OF q(3) api c3, of u4] s4 by simp_all
  show ?thesis using g1 g2 r1 r2 r3 w0 v1 n1 v2 n2 v3 r4 g4 by simp
qed

text \<open>
  The recipient file holds two recipients that were granted slightly more than an hour
  before the first submission; the third submission comes fifty minutes after the first
  grant, the fourth more than an hour after the second.
\<close>

theorem quota_three_sequential_submissions_witness:
  "submit config_quota2 api_accepting chain_active io_ok Map.empty 0 1000
       [recipient_of ''0xb1'' (- 3600001), recipient_of ''0xb2'' (- 5000000)] ''0xa1'' =
     ([recipient_of ''0xb1'' (- 3600001), recipient_of ''0xb2'' (- 5000000),
       recipient_of ''0xa1'' 1000], [(''0xa1'', 99)], []) \<and>
   submit config_quota2 api_accepting chain_active io_ok Map.empty 2000 3000
       [recipient_of ''0xb1'' (- 3600001), recipient_of ''0xb2'' (- 5000000),
        recipient_of ''0xa1'' 1000] ''0xa2'' =
     ([recipient_of ''0xb1'' (- 3600001), recipient_of ''0xb2'' (- 5000000),
       recipient_of ''0xa1'' 1000, recipient_of ''0xa2'' 3000], [(''0xa2'', 99)], []) \<and>
   submit config_quota2 api_accepting chain_active io_ok Map.empty 3000000 3001000
       [recipient_of ''0xb1'' (- 3600001), recipient_of ''0xb2'' (- 5000000),
        recipient_of ''0xa1'' 1000, recipient_of ''0xa2'' 3000] ''0xa3'' =
     ([recipient_of ''0xb1'' (- 3600001), recipient_of ''0xb2'' (- 5000000),
       recipient_of ''0xa1'' 1000, recipient_of ''0xa2'' 3000], [],
      [(OverThreshold ''0xa3'' 0 99 2, Info)]) \<and>
   submit config_quota2 api_accepting chain_active io_ok Map.empty 3700000 3701000
       [recipient_of ''0xb1'' (- 3600001), recipient_of ''0xb2'' (- 5000000),
        recipient_of ''0xa1'' 1000, recipient_of ''0xa2'' 3000] ''0xa3'' =
     ([recipient_of ''0xb1'' (- 3600001), recipient_of ''0xb2'' (- 5000000),
       recipient_of ''0xa1'' 1000, recipient_of ''0xa2'' 3000, recipient_of ''0xa3'' 3701000],
      [(''0xa3'', 99)], [])"
proof -
  let ?L0 = "[recipient_of ''0xb1'' (- 3600001), recipient_of ''0xb2'' (- 5000000)]"
  let ?L1 = "[recipient_of ''0xb1'' (- 3600001), recipient_of ''0xb2'' (- 5000000),
              recipient_of ''0xa1'' 1000]"
  let ?L2 = "[recipient_of ''0xb1'' (- 3600001), recipient_of ''0xb2'' (- 5000000),
              recipient_of ''0xa1'' 1000, recipient_of ''0xa2'' 3000]"
  let ?L4 = "[recipient_of ''0xb1'' (- 3600001), recipient_of ''0xb2'' (- 5000000),
              recipient_of ''0xa1'' 1000, recipient_of ''0xa2'' 3000, recipient_of ''0xa3'' 3701000]"
  have cfg: "THRESHOLD_MAX_USERS config_quota2 = 2" "THRESHOLD_TIME_PERIOD config_quota2 = 3600"
    "POINTS_TO_ASSIGN config_quota2 = 99"
    by (simp_all add: config_quota2_def config_default_def)
  have fs: "file_readable io_ok" "file_writable io_ok" by (simp_all add: io_ok_def)
  have api: "accepts_grants api_accepting" by (simp add: accepts_grants_def api_accepting_def)
  have addrs: "distinct (map toLowerCase [''0xa1'', ''0xa2'', ''0xa3''])" "''0xa1'' \<noteq> []" "''0xa2'' \<noteq> []"
    by (simp_all add: toLowerCase_def toLowerCase_char_def)
  have q: "qualifies config_quota2 chain_active Map.empty a" for a
    by (simp add: qualifies_def currentPointsOf_def communityAllocationsOf_def findAllocation_def
        config_quota2_def config_default_def chain_active_def chain_demo_def getUserNonce_def
        Number_small NONCE_THRESHOLD_def)
  have cp: "currentPointsOf (communityAllocationsOf config_quota2 Map.empty) ''0xa3'' = 0"
    by (simp add: currentPointsOf_def communityAllocationsOf_def findAllocation_def)
  have times: "(0::int) \<le> 1000" "(1000::int) \<le> 2000" "(2000::int) \<le> 3000" "(3000::int) \<le> 3000000"
    "(3000000::int) - 3600 * 1000 \<le> 1000"
    by simp_all
  have later: "(3000::int) < 3700000 - 3600 * 1000" by simp
  have old: "\<forall>r\<in>set ?L0. topUpDate r < 0 - 3600 * 1000"
    by (simp add: recipient_of_def)
  obtain l1 g1 e1 where s1:
    "submit config_quota2 api_accepting chain_active io_ok Map.empty 0 1000 ?L0 ''0xa1'' = (l1, g1, e1)"
    by (metis prod_cases3)
  obtain l2 g2 e2 where s2:
    "submit config_quota2 api_accepting chain_active io_ok Map.empty 2000 3000 l1 ''0xa2'' = (l2, g2, e2)"
    by (metis prod_cases3)
  obtain l3 g3 e3 where s3:
    "submit config_quota2 api_accepting chain_active io_ok Map.empty 3000000 3001000 l2 ''0xa3'' = (l3, g3, e3)"
    by (metis prod_cases3)
  obtain l4 g4 e4 where s4:
    "submit config_quota2 api_accepting chain_active io_ok Map.empty 3700000 3701000 l3 ''0xa3'' = (l4, g4, e4)"
    by (metis prod_cases3)
  note t = quota_three_sequential_submissions
             [OF cfg(1,2) fs api addrs q q q times later old s1 s2 s3 s4]
  have sa: "\<not> same_address ''0xa1'' (recipient_of ''0xb1'' t)" "\<not> same_address ''0xa1'' (recipient_of ''0xb2'' t)"
    "\<not> same_address ''0xa2'' (recipient_of ''0xb1'' t)" "\<not> same_address ''0xa2'' (recipient_of ''0xb2'' t)"
    "\<not> same_address ''0xa2'' (recipient_of ''0xa1'' t)"
    "\<not> same_address ''0xa3'' (recipient_of ''0xb1'' t)" "\<not> same_address ''0xa3'' (recipient_of ''0xb2'' t)"
    "\<not> same_address ''0xa3'' (recipient_of ''0xa1'' t)" "\<not> same_address ''0xa3'' (recipient_of ''0xa2'' t)"
    for t
    by (simp_all add: same_address_def recipient_of_def toLowerCase_def toLowerCase_char_def)
  have l1: "l1 = ?L1"
    using t fs by (simp add: addRecipient_address_only sa)
  have l2: "l2 = ?L2"
    using t fs unfolding l1 by (simp add: addRecipient_address_only sa)
  have l3: "l3 = ?L2"
    using t l2 by simp
  have l4: "l4 = ?L4"
    using t fs unfolding l3 by (simp add: addRecipient_address_only sa)
  have gs: "g1 = [(''0xa1'', 99)]" "g2 = [(''0xa2'', 99)]" "g3 = []" "g4 = [(''0xa3'', 99)]"
    "e1 = []" "e2 = []" "e3 = [(OverThreshold ''0xa3'' 0 99 2, Info)]" "e4 = []"
    using t cp cfg by simp_all
  show ?thesis using s1 s2 s3 s4 unfolding l1 l2 l3 l4 gs by simp
qed

subsection \<open>The entry of an address in a point system\<close>




lemma pointSystemEntry_eq:
  "pointSystemEntry ps al cl a =
     (case (if totalUnits ps > 0
            then (case bigint_div (pointsOf al (ps_id ps) a * SCALE)
                         (number_add (totalUnits ps)
                            (Number (pointsOf al (ps_id ps) a - claimedUnitsOf cl (ps_id ps) a))) of
                    Inl e \<Rightarrow> Inl e
                  | Inr share \<Rightarrow> bigint_div (share * flowrate ps) SCALE)
            else Inr 0) of
        Inl e \<Rightarrow> Inl e
      | Inr est \<Rightarrow>
          Inr (\<lparr> pointSystemId = ps_id ps, pointSystemName = ps_name ps,
                 eligible = (pointsOf al (ps_id ps) a > 0),
                 points_e = pointsOf al (ps_id ps) a,
                 claimedAmount = (case claimStatusOf cl (ps_id ps) a of Some u \<Rightarrow> Number u | None \<Rightarrow> 0),
                 needToClaim = (pointsOf al (ps_id ps) a - claimedUnitsOf cl (ps_id ps) a > 0),
                 gdaPoolAddress_e = gdaPoolAddress ps,
                 estimatedFlowRate = bigint_toString est \<rparr>, est))"
  by (simp add: pointSystemEntry_def pointsOf_def claimStatusOf_def claimedUnitsOf_def Let_def
      split: sum.splits option.splits)







lemma pointSystemEntry_Inr:
  assumes "pointSystemEntry ps al cl a = Inr (e, est)"
  shows "pointSystemId e = ps_id ps \<and> pointSystemName e = ps_name ps \<and>
         eligible e = (pointsOf al (ps_id ps) a > 0) \<and>
         points_e e = pointsOf al (ps_id ps) a \<and>
         claimedAmount e = Number (claimedUnitsOf cl (ps_id ps) a) \<and>
         needToClaim e = (pointsOf al (ps_id ps) a - claimedUnitsOf cl (ps_id ps) a > 0) \<and>
         gdaPoolAddress_e e = gdaPoolAddress ps \<and>
         estimatedFlowRate e = bigint_toString est"
proof -
  have "Number 0 = 0" by (simp add: Number_def)
  then show ?thesis
    using assms unfolding pointSystemEntry_eq
    by (auto simp: claimedUnitsOf_def split: sum.splits option.splits)
qed

lemma forEachPointSystem_Inr:
  assumes "forEachPointSystem al cl a pss (es, cn, ha, tot) = Inr res"
  shows "\<exists>xs. map (\<lambda>ps. pointSystemEntry ps al cl a) pss = map Inr xs \<and>
              res = (es @ map fst xs,
                     cn \<or> (\<exists>x\<in>set xs. needToClaim (fst x)),
                     ha \<or> (\<exists>x\<in>set xs. points_e (fst x) > 0),
                     tot + sum_list (map snd xs))"
  using assms
proof (induction pss arbitrary: es cn ha tot)
  case Nil
  then show ?case by simp
next
  case (Cons ps pss)
  from Cons.prems obtain e est where
    e: "pointSystemEntry ps al cl a = Inr (e, est)"
    and rest: "forEachPointSystem al cl a pss
                 (es @ [e], cn \<or> needToClaim e, ha \<or> points_e e > 0, tot + est) = Inr res"
    by (auto split: sum.splits)
  from Cons.IH [OF rest] obtain xs where
    xs: "map (\<lambda>ps. pointSystemEntry ps al cl a) pss = map Inr xs"
    and res: "res = ((es @ [e]) @ map fst xs,
                     (cn \<or> needToClaim e) \<or> (\<exists>x\<in>set xs. needToClaim (fst x)),
                     (ha \<or> points_e e > 0) \<or> (\<exists>x\<in>set xs. points_e (fst x) > 0),
                     (tot + est) + sum_list (map snd xs))"
    by blast
  show ?case
    by (rule exI [of _ "(e, est) # xs"]) (use e xs res in auto)
qed






lemma entries_fields:
  assumes "map (\<lambda>ps. pointSystemEntry ps al cl a) pss = map Inr xs"
  shows "map (estimatedFlowRate \<circ> fst) xs = map (bigint_toString \<circ> snd) xs \<and>
         map (pointSystemId \<circ> fst) xs = map ps_id pss \<and>
         map (points_e \<circ> fst) xs = map (\<lambda>ps. pointsOf al (ps_id ps) a) pss \<and>
         map (claimedAmount \<circ> fst) xs = map (\<lambda>ps. Number (claimedUnitsOf cl (ps_id ps) a)) pss \<and>
         map (needToClaim \<circ> fst) xs =
           map (\<lambda>ps. pointsOf al (ps_id ps) a - claimedUnitsOf cl (ps_id ps) a > 0) pss"
  using assms
proof (induction pss arbitrary: xs)
  case Nil
  then show ?case by simp
next
  case (Cons ps pss)
  then obtain x xs' where xs: "xs = x # xs'" by (cases xs) auto
  with Cons.prems have h: "pointSystemEntry ps al cl a = Inr (fst x, snd x)"
    and t: "map (\<lambda>ps. pointSystemEntry ps al cl a) pss = map Inr xs'"
    by simp_all
  show ?case
    using Cons.IH [OF t] pointSystemEntry_Inr [OF h] xs by simp
qed

lemma addressEligibility_Inr:
  assumes "addressEligibility systems al cl a = Inr r"
  shows "\<exists>xs. map (\<lambda>ps. pointSystemEntry ps al cl a) systems = map Inr xs \<and>
              r = \<lparr> address_e = a,
                    hasAllocations = (\<exists>x\<in>set xs. points_e (fst x) > 0),
                    claimNeeded = (\<exists>x\<in>set xs. needToClaim (fst x)),
                    totalFlowRate = bigint_toString (sum_list (map snd xs)),
                    eligibility = map fst xs \<rparr>"
proof -
  from assms obtain res where
    f: "forEachPointSystem al cl a systems ([], False, False, 0) = Inr res"
    by (auto simp: addressEligibility_def split: sum.splits)
  from forEachPointSystem_Inr [OF f] obtain xs where
    xs: "map (\<lambda>ps. pointSystemEntry ps al cl a) systems = map Inr xs"
    and res: "res = ([] @ map fst xs, False \<or> (\<exists>x\<in>set xs. needToClaim (fst x)),
                     False \<or> (\<exists>x\<in>set xs. points_e (fst x) > 0), 0 + sum_list (map snd xs))"
    by blast
  show ?thesis
    by (rule exI [of _ xs]) (use assms f xs res in \<open>simp add: addressEligibility_def\<close>)
qed

lemma refreshTotalUnits_Inr:
  assumes "refreshTotalUnits m pss = Inr refreshed"
  shows "map (Inr \<circ> totalUnits) refreshed =
           map (\<lambda>ps. map_sum id Number (getTotalUnitsMemoized m (gdaPoolAddress ps))) pss \<and>
         map ps_id refreshed = map ps_id pss \<and> map flowrate refreshed = map flowrate pss \<and>
         map gdaPoolAddress refreshed = map gdaPoolAddress pss \<and>
         map ps_name refreshed = map ps_name pss"
  using assms
proof (induction pss arbitrary: refreshed)
  case Nil
  then show ?case by simp
next
  case (Cons ps pss)
  then show ?case
    by (auto split: sum.splits)
qed





subsection \<open>Claim statuses\<close>




lemma combineAll_Inr:
  assumes "fst (combineAll systems al cl addresses) = Inr rs"
  shows "list_all2 (\<lambda>b r. addressEligibility systems al cl b = Inr r) addresses rs"
  using assms
proof (induction addresses arbitrary: rs)
  case Nil
  then show ?case by simp
next
  case (Cons b addresses)
  then show ?case
    by (auto split: sum.splits prod.splits)
qed







subsection \<open>Fetching the allocations\<close>














subsection \<open>Bulk locker discovery\<close>

lemma getLockers_loop_stuck:
  assumes page: "graph query = Inr lockers" "\<not> length lockers < pageSize"
    and unchanged: "foldl (matchLocker addresses) found lockers = found"
    and unresolved: "length found \<noteq> length addresses"
  shows "getLockers_loop graph query addresses found skip = None"
proof -
  have "\<not> (g = graph \<and> q = query \<and> a = addresses \<and> f = found)"
    if run: "getLockers_loop g q a f s = Some y" for g q a f s y
  proof (rule getLockers_loop.raw_induct
      [where P = "\<lambda>g q a f s y. \<not> (g = graph \<and> q = query \<and> a = addresses \<and> f = found)", OF _ run])
    fix loop g q a f s y
    assume IH: "\<And>g q a f s y. loop g q a f s = Some y \<Longrightarrow>
                  \<not> (g = graph \<and> q = query \<and> a = addresses \<and> f = found)"
      and body: "(case g q of
                    Inl e \<Rightarrow> Some f
                  | Inr lockers \<Rightarrow>
                      let found = foldl (matchLocker a) f lockers
                      in if length found = length a \<or> length lockers < pageSize then Some found
                         else loop g q a found (s + pageSize)) = Some y"
    show "\<not> (g = graph \<and> q = query \<and> a = addresses \<and> f = found)"
    proof
      assume eq: "g = graph \<and> q = query \<and> a = addresses \<and> f = found"
      with body page unchanged unresolved
      have "loop graph query addresses found (s + pageSize) = Some y"
        by (simp add: Let_def)
      from IH [OF this] show False by simp
    qed
  qed
  then have "getLockers_loop graph query addresses found skip \<noteq> Some y" for y
    by blast
  then show ?thesis
    by (cases "getLockers_loop graph query addresses found skip") blast+
qed

text \<open>The loop does end on a first page that is short, and on a failed request.\<close>

lemma getLockers_short_page:
  assumes "graph (pageSize, 0) = Inr lockers" "length lockers < pageSize"
  shows "getLockers graph addresses = Some (foldl (matchLocker addresses) [] lockers)"
  using assms by (simp add: getLockers_def getLockers_loop.simps)

lemma getLockers_failed_request:
  assumes "graph (pageSize, 0) = Inl e"
  shows "getLockers graph addresses = Some []"
  using assms by (simp add: getLockers_def getLockers_loop.simps)

lemma toLowerCase_append: "toLowerCase (s @ t) = toLowerCase s @ toLowerCase t"
  by (simp add: toLowerCase_def)

lemma matchLocker_other_owner:
  "matchLocker [''0xaaa''] found (locker_of i) = found"
  by (simp add: matchLocker_def locker_of_def toLowerCase_append)
     (simp add: toLowerCase_def toLowerCase_char_def)

lemma foldl_unchanged: "(\<And>x. x \<in> set xs \<Longrightarrow> f s x = s) \<Longrightarrow> foldl f s xs = s"
  by (induction xs) auto

text \<open>
  C9, on the code. The query text is built once with \<open>skip = 0\<close>, so every iteration
  fetches the first page again: when that page is full and leaves a requested address
  unresolved, the loop is in the same state after the iteration and never ends. Here
  \<open>0xaaa\<close> owns none of the 1000 most recent lockers, and \<open>getLockers\<close> returns nothing.
\<close>

theorem getLockers_never_returns:
  "getLockers graph_demo [''0xaaa''] = None"
proof -
  let ?page = "map (\<lambda>i. locker_of (int i)) [0..<1000]"
  have p: "graph_demo (pageSize, 0) = Inr ?page"
    by (simp add: graph_demo_def pageSize_def)
  have l: "\<not> length ?page < pageSize"
    by (simp add: pageSize_def)
  have u: "foldl (matchLocker [''0xaaa'']) [] ?page = []"
    by (rule foldl_unchanged) (auto simp: matchLocker_other_owner)
  show ?thesis
    unfolding getLockers_def
    by (rule getLockers_loop_stuck
          [where graph = graph_demo and query = "(pageSize, 0)" and addresses = "[''0xaaa'']"
             and found = "[]" and lockers = ?page, OF p l u]) simp
qed

subsection \<open>The records of a batch\<close>

lemma addressEligibility_address:
  "addressEligibility systems al cl a = Inr r \<Longrightarrow> address_e r = a"
  by (auto simp: addressEligibility_def split: sum.splits)

lemma addressEligibility_order:
  assumes "addressEligibility systems al cl a = Inr r"
  shows "map pointSystemId (eligibility r) = map ps_id systems"
proof -
  from addressEligibility_Inr [OF assms] obtain xs where
    xs: "map (\<lambda>ps. pointSystemEntry ps al cl a) systems = map Inr xs"
    and r: "eligibility r = map fst xs"
    by auto
  show ?thesis using entries_fields [OF xs] r by simp
qed

text \<open>
  \<open>_checkEligibility\<close> returns one record per element of its \<open>addresses\<close> argument, in
  the order of that argument, each with one entry per configured point system in
  configuration order.
\<close>

lemma checkEligibility_impl_order:
  assumes "result (checkEligibility_impl cfg api c m fs now ledger addresses consumer) = Inr rs"
  shows "map address_e rs = addresses \<and>
         (\<forall>r\<in>set rs. map pointSystemId (eligibility r) = map ps_id (pointSystems cfg))"
proof -
  from assms obtain systems al cl where
    s: "refreshTotalUnits m (pointSystems cfg) = Inr systems"
    and cmb: "fst (combineAll systems al cl addresses) = Inr rs"
    by (auto simp: checkEligibility_impl_def Let_def split: sum.splits)
  have ids: "map ps_id systems = map ps_id (pointSystems cfg)"
    using refreshTotalUnits_Inr [OF s] by simp
  have l: "list_all2 (\<lambda>b r. addressEligibility systems al cl b = Inr r) addresses rs"
    using cmb by (rule combineAll_Inr)
  then have "list_all2 (\<lambda>b r. address_e r = b) addresses rs"
    by (rule list_all2_mono) (simp add: addressEligibility_address)
  then have 1: "map address_e rs = addresses"
    by (induction rule: list_all2_induct) simp_all
  have 2: "\<forall>r\<in>set rs. map pointSystemId (eligibility r) = map ps_id (pointSystems cfg)"
    using l ids addressEligibility_order
    by (fastforce simp: list_all2_conv_all_nth in_set_conv_nth)
  from 1 2 show ?thesis by blast
qed

lemma cacheKey_inj: "cacheKey a = cacheKey b \<Longrightarrow> toLowerCase a = toLowerCase b"
  by (simp add: cacheKey_def)

lemma flatAll_Inr_Cons:
  "flatAll (r # rs) = Inr ys \<longleftrightarrow> (\<exists>xs zs. r = Inr xs \<and> flatAll rs = Inr zs \<and> ys = xs @ zs)"
  by (cases r) (auto split: sum.splits)

lemma memoizedCalls_addresses:
  assumes "\<forall>k rs. cache k = Some (Inr rs) \<longrightarrow>
             (\<exists>a. cacheKey a = k \<and> map address_e rs = [a, consumer] \<and>
                  (\<forall>r\<in>set rs. map pointSystemId (eligibility r) = map ps_id (pointSystems cfg)))"
    and "flatAll (outcomes (memoizedCalls cfg api c m fs now ledger cache addresses consumer)) = Inr rs"
  shows "map (toLowerCase \<circ> address_e) rs =
           concat (map (\<lambda>a. [toLowerCase a, toLowerCase consumer]) addresses) \<and>
         (\<forall>r\<in>set rs. map pointSystemId (eligibility r) = map ps_id (pointSystems cfg))"
  using assms
proof (induction addresses arbitrary: cache rs)
  case Nil
  then show ?case by simp
next
  case (Cons a addresses)
  show ?case
  proof (cases "cache (cacheKey a)")
    case (Some cached)
    with Cons.prems(2) obtain xs zs where
      c: "cached = Inr xs"
      and z: "flatAll (outcomes (memoizedCalls cfg api c m fs now ledger cache addresses consumer)) = Inr zs"
      and rs: "rs = xs @ zs"
      by (auto simp: Let_def flatAll_Inr_Cons)
    from Cons.prems(1) Some c obtain b where
      b: "cacheKey b = cacheKey a" "map address_e xs = [b, consumer]"
         "\<forall>r\<in>set xs. map pointSystemId (eligibility r) = map ps_id (pointSystems cfg)"
      by (metis (no_types, lifting))
    have "map (toLowerCase \<circ> address_e) xs = [toLowerCase a, toLowerCase consumer]"
      using b cacheKey_inj [OF b(1)] by (simp add: map_map [symmetric] del: map_map)
    then show ?thesis
      using Cons.IH [OF Cons.prems(1) z] rs b(3) by auto
  next
    case None
    let ?r = "result (checkEligibility_impl cfg api c m fs now ledger [a, consumer] None)"
    let ?cache = "cache(cacheKey a \<mapsto> ?r)"
    from Cons.prems(2) None obtain xs zs where
      x: "?r = Inr xs"
      and z: "flatAll (outcomes (memoizedCalls cfg api c m fs now ledger ?cache addresses consumer)) = Inr zs"
      and rs: "rs = xs @ zs"
      by (auto simp: Let_def flatAll_Inr_Cons simp del: fun_upd_apply)
    note o = checkEligibility_impl_order [OF x]
    have inv: "\<forall>k rs. ?cache k = Some (Inr rs) \<longrightarrow>
             (\<exists>a. cacheKey a = k \<and> map address_e rs = [a, consumer] \<and>
                  (\<forall>r\<in>set rs. map pointSystemId (eligibility r) = map ps_id (pointSystems cfg)))"
      using Cons.prems(1) o x by auto
    have "map (toLowerCase \<circ> address_e) xs = [toLowerCase a, toLowerCase consumer]"
      using o by (simp add: map_map [symmetric] del: map_map)
    then show ?thesis
      using Cons.IH [OF inv z] rs o by auto
  qed
qed

text \<open>
  Starting from an empty cache, a successful \<open>checkEligibility\<close> returns two records per
  input address: one for the address (up to letter case, when the address occurs twice in
  the batch) and one whose address is the consumer name.
\<close>

lemma checkEligibility_record_addresses:
  assumes "returned (checkEligibility cfg api c m fs now ledger Map.empty addresses consumer) = Inr rs"
  shows "map (toLowerCase \<circ> address_e) rs =
           concat (map (\<lambda>a. [toLowerCase a, toLowerCase consumer]) addresses) \<and>
         length rs = 2 * length addresses \<and>
         (\<forall>r\<in>set rs. map pointSystemId (eligibility r) = map ps_id (pointSystems cfg))"
proof -
  from assms have f: "flatAll (outcomes (memoizedCalls cfg api c m fs now ledger (\<lambda>k. None) addresses consumer)) = Inr rs"
    by (auto simp: checkEligibility_def Let_def split: sum.splits)
  have m: "map (toLowerCase \<circ> address_e) rs =
           concat (map (\<lambda>a. [toLowerCase a, toLowerCase consumer]) addresses) \<and>
         (\<forall>r\<in>set rs. map pointSystemId (eligibility r) = map ps_id (pointSystems cfg))"
    by (rule memoizedCalls_addresses [OF _ f]) simp
  then have "length (map (toLowerCase \<circ> address_e) rs) =
             length (concat (map (\<lambda>a. [toLowerCase a, toLowerCase consumer]) addresses))"
    by simp
  then have "length rs = 2 * length addresses"
    by (simp add: length_concat o_def sum_list_triv)
  with m show ?thesis by blast
qed

text \<open>
  With nothing memoized, every call of \<open>_checkEligibility\<close> for a configuration with at
  least one point system is rejected by the accessor of the total units, and so is every
  call of \<open>checkEligibility\<close> for a non-empty address list.
\<close>

lemma refreshTotalUnits_cold:
  "pss \<noteq> [] \<Longrightarrow>
     refreshTotalUnits memoized_cold pss =
       Inl (TypeError ''Cannot read properties of undefined (reading 'client')'')"
  by (cases pss) (simp_all add: getTotalUnitsMemoized_def memoized_cold_def)

lemma checkEligibility_impl_cold:
  "pointSystems cfg \<noteq> [] \<Longrightarrow>
     result (checkEligibility_impl cfg api c memoized_cold fs now ledger addresses consumer) =
       Inl (TypeError ''Cannot read properties of undefined (reading 'client')'')"
  by (simp add: checkEligibility_impl_def Let_def refreshTotalUnits_cold)

lemma checkEligibility_cold:
  assumes "pointSystems cfg \<noteq> []" "addresses \<noteq> []"
  shows "returned (checkEligibility cfg api c memoized_cold fs now ledger Map.empty addresses consumer) =
           Inl (Error ''Failed to check eligibility: Cannot read properties of undefined (reading 'client')'')"
proof -
  from assms(2) obtain a rest where a: "addresses = a # rest" by (cases addresses) auto
  show ?thesis
    using assms(1) unfolding a
    by (simp add: checkEligibility_def Let_def checkEligibility_impl_cold)
qed

text \<open>
  C2, on the code. For the addresses \<open>0xAAA\<close> and \<open>0xBBB\<close> and the consumer name \<open>app\<close>, a
  call of \<open>checkEligibility\<close> that finds nothing memoized returns no record: it is rejected
  with the error of the accessor of the total units. The alert about the rejected locker
  lookup, which the same call emits, names the addresses \<open>0xAAA\<close> and \<open>app\<close>: the consumer
  name has become an element of the address list of \<open>_checkEligibility\<close>. A call that finds
  the lockers and the total units memoized returns four records, for \<open>0xAAA\<close>, \<open>app\<close>,
  \<open>0xBBB\<close> and \<open>app\<close>, each with one entry per configured point system in configuration
  order.
\<close>

theorem checkEligibility_returns_caller_label_records:
  "returned (checkEligibility config_default api_demo chain_demo memoized_cold io_ok 0 [] Map.empty
               [''0xAAA'', ''0xBBB''] ''app'') =
     Inl (Error ''Failed to check eligibility: Cannot read properties of undefined (reading 'client')'') \<and>
   (LockerAddressesFailed [''0xAAA'', ''app'']
      (TypeError ''Cannot read properties of undefined (reading 'getClient')''), Info)
     \<in> set (emitted (checkEligibility config_default api_demo chain_demo memoized_cold io_ok 0 []
                       Map.empty [''0xAAA'', ''0xBBB''] ''app'')) \<and>
   map_sum id (map (\<lambda>r. (address_e r, map pointSystemId (eligibility r))))
     (returned (checkEligibility config_default api_demo chain_demo memoized_demo io_ok 0 [] Map.empty
                  [''0xAAA'', ''0xBBB''] ''app'')) =
   Inr [(''0xAAA'', [7691, 7695, 7696, 7703, 7712, 7702, 7704]),
        (''app'', [7691, 7695, 7696, 7703, 7712, 7702, 7704]),
        (''0xBBB'', [7691, 7695, 7696, 7703, 7712, 7702, 7704]),
        (''app'', [7691, 7695, 7696, 7703, 7712, 7702, 7704])]"
  by code_simp

end
